theory Spec2Isabelle
  imports Main "HOL-Library.AList" "HOL-Library.Multiset" "HOL-Library.Sublist"
begin

section \<open>JavaScript values\<close>

text \<open>
  The project descriptor is read with \<^verbatim>\<open>JSON.parse\<close>, so every field of the configuration
  can hold any JSON value at run time, whatever the interface
  \<^verbatim>\<open>IVitaProjectConfiguration\<close> declares. A parsed object is the list of its own properties
  in insertion order; a property that is absent reads as \<^verbatim>\<open>undefined\<close>, which is \<open>None\<close>.
  A string is the list of its code units. A number is given by the text JavaScript prints
  for it, which tells two numbers apart: 9 is \<^verbatim>\<open>9\<close>, 1.5 is \<^verbatim>\<open>1.5\<close> and ten to the power 21 is
  \<^verbatim>\<open>1e+21\<close>. The program compares numbers and prints them, and does no arithmetic.
\<close>

datatype jsval =
    JNull
  | JBool bool
  | JNum string
  | JStr string
  | JArr "jsval list"
  | JObj "(string \<times> jsval) list"

text \<open>\<^verbatim>\<open>x == null\<close>: true of \<^verbatim>\<open>null\<close> and of \<^verbatim>\<open>undefined\<close>.\<close>

definition nullish :: "jsval option \<Rightarrow> bool" where
  "nullish v = (case v of None \<Rightarrow> True | Some JNull \<Rightarrow> True | Some _ \<Rightarrow> False)"

text \<open>\<^verbatim>\<open>a ?? b\<close>\<close>

definition coalesce :: "jsval option \<Rightarrow> jsval option \<Rightarrow> jsval option" where
  "coalesce a b = (if nullish a then b else a)"

text \<open>
  The conversion to a boolean: \<^verbatim>\<open>undefined\<close>, \<^verbatim>\<open>null\<close>, \<^verbatim>\<open>false\<close>, zero and the empty string
  are falsy, everything else is truthy.
\<close>

definition truthy :: "jsval option \<Rightarrow> bool" where
  "truthy v =
     (case v of
        None \<Rightarrow> False
      | Some JNull \<Rightarrow> False
      | Some (JBool b) \<Rightarrow> b
      | Some (JNum n) \<Rightarrow> n \<noteq> ''0''
      | Some (JStr s) \<Rightarrow> s \<noteq> []
      | Some (JArr xs) \<Rightarrow> True
      | Some (JObj kvs) \<Rightarrow> True)"

text \<open>Decimal digits of a natural number: the text of a length or of an index.\<close>

fun show_nat :: "nat \<Rightarrow> string" where
  "show_nat n =
     (if n < 10 then [''0123456789'' ! n]
      else show_nat (n div 10) @ [''0123456789'' ! (n mod 10)])"

declare show_nat.simps [simp del]

text \<open>
  The property read \<^verbatim>\<open>v.k\<close> on a parsed value that is not nullish: an own property of an
  object, the length or an element of an array or of a string. The methods that values
  inherit are left out; the program reads none of them.
\<close>

fun js_prop :: "jsval \<Rightarrow> string \<Rightarrow> jsval option" where
  "js_prop (JObj kvs) k = map_of kvs k"
| "js_prop (JStr s) k =
     (if k = ''length'' then Some (JNum (show_nat (length s)))
      else case find (\<lambda>i. show_nat i = k) [0..<length s] of
             None \<Rightarrow> None | Some i \<Rightarrow> Some (JStr [s ! i]))"
| "js_prop (JArr xs) k =
     (if k = ''length'' then Some (JNum (show_nat (length xs)))
      else case find (\<lambda>i. show_nat i = k) [0..<length xs] of
             None \<Rightarrow> None | Some i \<Rightarrow> Some (xs ! i))"
| "js_prop JNull k = None"
| "js_prop (JBool b) k = None"
| "js_prop (JNum n) k = None"

text \<open>\<^verbatim>\<open>v?.k\<close>\<close>

definition opt_chain :: "jsval option \<Rightarrow> string \<Rightarrow> jsval option" where
  "opt_chain v k = (case v of None \<Rightarrow> None | Some JNull \<Rightarrow> None | Some w \<Rightarrow> js_prop w k)"

text \<open>
  \<^verbatim>\<open>String(v)\<close>, the conversion a template literal applies: an array joins its elements
  with commas, a \<^verbatim>\<open>null\<close> element printing as the empty string.
\<close>

fun ToString :: "jsval \<Rightarrow> string" and join_elems :: "jsval list \<Rightarrow> string" where
  "ToString JNull = ''null''"
| "ToString (JBool b) = (if b then ''true'' else ''false'')"
| "ToString (JNum n) = n"
| "ToString (JStr s) = s"
| "ToString (JArr xs) = join_elems xs"
| "ToString (JObj kvs) = ''[object Object]''"
| "join_elems [] = []"
| "join_elems (x # xs) =
     (case x of JNull \<Rightarrow> [] | _ \<Rightarrow> ToString x) @
     (case xs of [] \<Rightarrow> [] | _ # _ \<Rightarrow> '','' @ join_elems xs)"

text \<open>A value spliced into a template literal: \<^verbatim>\<open>`${v}`\<close>.\<close>

definition template :: "jsval option \<Rightarrow> string" where
  "template v = (case v of None \<Rightarrow> ''undefined'' | Some w \<Rightarrow> ToString w)"

subsection \<open>Objects that are written to\<close>

text \<open>
  An object that the program writes to has its own properties and a prototype: the
  prototype every object literal starts with, none, or a parsed value that a write to
  \<^verbatim>\<open>__proto__\<close> has put there.
\<close>

datatype proto = ObjectPrototype | NullPrototype | ProtoValue jsval

record jsobject =
  props :: "(string \<times> jsval) list"
  prototype :: proto

text \<open>An object as a literal or \<^verbatim>\<open>JSON.parse\<close> creates it.\<close>

definition literal :: "(string \<times> jsval) list \<Rightarrow> jsobject" where
  "literal kvs = \<lparr>props = kvs, prototype = ObjectPrototype\<rparr>"

text \<open>
  The property read \<^verbatim>\<open>o.k\<close>: an own property first, then the prototype. Of what
  \<^verbatim>\<open>Object.prototype\<close> itself defines, nothing is modelled.
\<close>

definition get :: "jsobject \<Rightarrow> string \<Rightarrow> jsval option" where
  "get obj k =
     (case map_of (props obj) k of
        Some v \<Rightarrow> Some v
      | None \<Rightarrow> (case prototype obj of ProtoValue p \<Rightarrow> js_prop p k | _ \<Rightarrow> None))"

text \<open>
  The write \<^verbatim>\<open>o[k] = v\<close>. An own property is overwritten. Otherwise the prototype chain
  decides: every property found there is a writable data property, and the write makes
  a new own property, but for \<^verbatim>\<open>__proto__\<close> on \<^verbatim>\<open>Object.prototype\<close>, which is a setter: it
  replaces the prototype when the value is an object or \<^verbatim>\<open>null\<close> and does nothing for any
  other value. The setter is reached unless the chain ends before it or a parsed object
  on the way has an own property of that name.
\<close>

definition reaches_setter :: "proto \<Rightarrow> bool" where
  "reaches_setter p =
     (case p of
        ObjectPrototype \<Rightarrow> True
      | NullPrototype \<Rightarrow> False
      | ProtoValue (JObj kvs) \<Rightarrow> map_of kvs ''__proto__'' = None
      | ProtoValue _ \<Rightarrow> True)"

definition set_prop :: "jsobject \<Rightarrow> string \<Rightarrow> jsval \<Rightarrow> jsobject" where
  "set_prop obj k v =
     (if k = ''__proto__'' \<and> map_of (props obj) k = None \<and> reaches_setter (prototype obj)
      then (case v of
              JObj kvs \<Rightarrow> obj\<lparr>prototype := ProtoValue v\<rparr>
            | JArr xs \<Rightarrow> obj\<lparr>prototype := ProtoValue v\<rparr>
            | JNull \<Rightarrow> obj\<lparr>prototype := NullPrototype\<rparr>
            | _ \<Rightarrow> obj)
      else obj\<lparr>props := AList.update k v (props obj)\<rparr>)"

section \<open>Errors\<close>

text \<open>
  The first seven are the strings of the table \<^verbatim>\<open>errors\<close>, thrown as they are. The others
  are raised by the platform and the libraries: a malformed descriptor, a read of a
  property of \<^verbatim>\<open>undefined\<close>, a refused change of the remote directory, and any other
  failure of the file system, of an external tool or of the network.
\<close>

datatype error =
    projectConfigFileIsMissing
  | idDoesNotConformRequirements
  | titleIsNotAvailable
  | srcDirDoesntExists
  | ebootFileIsMissing
  | indexFileIsMissing
  | ipIsNotDefined
  | SyntaxError
  | TypeError
  | RemoteDirNotFound
  | Failure string

section \<open>The defaults\<close>

definition projectConfigurationFilePath :: string where
  "projectConfigurationFilePath = ''./lpp-vita-project.json''"

definition ebootFileName :: string where
  "ebootFileName = ''eboot.bin''"

definition indexFileName :: string where
  "indexFileName = ''index.lua''"

definition tempDir :: string where
  "tempDir = ''.temp''"

text \<open>\<^verbatim>\<open>defaults.config\<close> as the module creates it.\<close>

definition defaults_config :: jsobject where
  "defaults_config =
     literal
       [(''id'', JStr ''HELLOWRLD''),
        (''title'', JStr ''Hello World''),
        (''ports'', JObj [(''ftp'', JNum ''1337''), (''cmd'', JNum ''1338'')]),
        (''srcDir'', JStr ''src''),
        (''outDir'', JStr ''dist'')]"

section \<open>Validation\<close>

definition validateConfiguration :: "jsobject \<Rightarrow> error + unit" where
  "validateConfiguration configuration =
     (if nullish (get configuration ''id'') \<or>
         opt_chain (get configuration ''id'') ''length'' \<noteq> Some (JNum ''9'')
      then Inl idDoesNotConformRequirements
      else if nullish (get configuration ''title'') then Inl titleIsNotAvailable
      else Inr ())"

section \<open>Loading the configuration\<close>

text \<open>
  The own enumerable properties of a value, in order, as \<^verbatim>\<open>Object.assign\<close> reads them from
  its source: those of an object, the indices of an array or of a string, none of
  \<^verbatim>\<open>null\<close>, of a boolean or of a number.
\<close>

fun own_props :: "jsval \<Rightarrow> (string \<times> jsval) list" where
  "own_props (JObj kvs) = kvs"
| "own_props (JArr xs) = zip (map show_nat [0..<length xs]) xs"
| "own_props (JStr s) = zip (map show_nat [0..<length s]) (map (\<lambda>c. JStr [c]) s)"
| "own_props JNull = []"
| "own_props (JBool b) = []"
| "own_props (JNum n) = []"

text \<open>Each property of the source is written to the target, one key after the other.\<close>

definition assign_props :: "jsobject \<Rightarrow> jsval \<Rightarrow> jsobject" where
  "assign_props target source =
     fold (\<lambda>(k, v) obj. set_prop obj k v) (own_props source) target"

text \<open>
  Objects live in a store and are passed by reference. \<^verbatim>\<open>Object.assign(target, source)\<close>
  writes into the object at \<open>target\<close> and returns that same reference. The module creates
  one object that is written to later, \<^verbatim>\<open>defaults.config\<close>.
\<close>

type_synonym addr = nat

type_synonym heap = "addr \<Rightarrow> jsobject"

definition defaults_config_addr :: addr where
  "defaults_config_addr = 0"

definition module_heap :: heap where
  "module_heap = (\<lambda>a. literal [])(defaults_config_addr := defaults_config)"

definition Object_assign :: "heap \<Rightarrow> addr \<Rightarrow> jsval \<Rightarrow> addr \<times> heap" where
  "Object_assign h target source = (target, h(target := assign_props (h target) source))"

text \<open>
  The file system as the program sees it: \<^verbatim>\<open>fs.existsSync\<close> and \<^verbatim>\<open>fs.readFileSync\<close>.
  \<^verbatim>\<open>JSON.parse\<close> is a parameter: it returns a value or throws.
\<close>

record filesys =
  existsSync :: "string \<Rightarrow> bool"
  readFileSync :: "string \<Rightarrow> error + string"

type_synonym json_parser = "string \<Rightarrow> error + jsval"

text \<open>
  \<^verbatim>\<open>readConfiguration\<close> returns the reference it got from \<^verbatim>\<open>Object.assign\<close>. The store is
  returned beside the result, since a write stays when a later step throws.
\<close>

definition readConfiguration ::
  "filesys \<Rightarrow> json_parser \<Rightarrow> string \<Rightarrow> heap \<Rightarrow> (error + addr) \<times> heap" where
  "readConfiguration fs JSON_parse filePath h =
     (if \<not> existsSync fs filePath then (Inl projectConfigFileIsMissing, h)
      else case readFileSync fs filePath of
        Inl e \<Rightarrow> (Inl e, h)
      | Inr text \<Rightarrow>
          (case JSON_parse text of
             Inl e \<Rightarrow> (Inl e, h)
           | Inr parsed \<Rightarrow>
               (let (vitaProjectConfig, h') = Object_assign h defaults_config_addr parsed
                in (Inr vitaProjectConfig, h'))))"

section \<open>The project\<close>

record VitaProject =
  configuration :: addr

text \<open>
  The three probes of \<^verbatim>\<open>checkRequiredFiles\<close>, each a call of \<^verbatim>\<open>fs.existsSync\<close>. The result
  carries the paths probed, in order.
\<close>

definition srcDirPath :: "heap \<Rightarrow> VitaProject \<Rightarrow> string" where
  "srcDirPath h this = template (get (h (configuration this)) ''srcDir'') @ ''/''"

definition ebootPath :: "heap \<Rightarrow> VitaProject \<Rightarrow> string" where
  "ebootPath h this =
     template (get (h (configuration this)) ''srcDir'') @ ''/'' @ ebootFileName"

definition indexPath :: "heap \<Rightarrow> VitaProject \<Rightarrow> string" where
  "indexPath h this =
     template (get (h (configuration this)) ''srcDir'') @ ''/'' @ indexFileName"

definition checkRequiredFiles ::
  "filesys \<Rightarrow> heap \<Rightarrow> VitaProject \<Rightarrow> string list \<times> (error + unit)" where
  "checkRequiredFiles fs h this =
     (if \<not> existsSync fs (srcDirPath h this)
      then ([srcDirPath h this], Inl srcDirDoesntExists)
      else if \<not> existsSync fs (ebootPath h this)
      then ([srcDirPath h this, ebootPath h this], Inl ebootFileIsMissing)
      else if \<not> existsSync fs (indexPath h this)
      then ([srcDirPath h this, ebootPath h this, indexPath h this], Inl indexFileIsMissing)
      else ([srcDirPath h this, ebootPath h this, indexPath h this], Inr ()))"

text \<open>
  The constructor: read, validate, check. \<^verbatim>\<open>configurationFilePath ?? \<close> the default path.
\<close>

definition new_VitaProject ::
  "filesys \<Rightarrow> json_parser \<Rightarrow> string option \<Rightarrow> heap \<Rightarrow> (error + VitaProject) \<times> heap" where
  "new_VitaProject fs JSON_parse configurationFilePath h =
     (case readConfiguration fs JSON_parse
             (case configurationFilePath of
                None \<Rightarrow> projectConfigurationFilePath | Some p \<Rightarrow> p) h of
        (Inl e, h') \<Rightarrow> (Inl e, h')
      | (Inr c, h') \<Rightarrow>
          (case validateConfiguration (h' c) of
             Inl e \<Rightarrow> (Inl e, h')
           | Inr _ \<Rightarrow>
               (case snd (checkRequiredFiles fs h' \<lparr>configuration = c\<rparr>) of
                  Inl e \<Rightarrow> (Inl e, h')
                | Inr _ \<Rightarrow> (Inr \<lparr>configuration = c\<rparr>, h'))))"

section \<open>Streams of files\<close>

text \<open>
  A file travelling through a gulp stream: the working directory it was found from, its
  absolute path, its path from the base of the glob that found it, which is its name in
  an archive and under a destination, and its contents. \<^verbatim>\<open>gulp.src\<close> delivers directories
  too; a directory has no contents, which is \<open>None\<close>. A stream either delivers its files or
  emits an error. The order in which merged or restored streams deliver is not fixed by
  the libraries: a list gives one order, and the properties below are about what is
  delivered, not about where.
\<close>

record vinyl =
  cwd :: string
  path :: string
  relative :: string
  contents :: "string option"

type_synonym stream = "error + vinyl list"

text \<open>The segments of a path, cut at every slash.\<close>

fun split_path :: "string \<Rightarrow> string list" where
  "split_path [] = [[]]"
| "split_path (c # cs) =
     (if c = CHR ''/'' then [] # split_path cs
      else case split_path cs of [] \<Rightarrow> [[c]] | s # ss \<Rightarrow> (c # s) # ss)"

definition basename :: "string \<Rightarrow> string" where
  "basename p = last (split_path p)"

definition ends_with :: "string \<Rightarrow> string \<Rightarrow> bool" where
  "ends_with e s = (length e \<le> length s \<and> drop (length s - length e) s = e)"

definition hidden :: "string \<Rightarrow> bool" where
  "hidden seg = (case seg of [] \<Rightarrow> False | c # _ \<Rightarrow> c = CHR ''.'')"

text \<open>
  The path \<^verbatim>\<open>gulp-filter\<close> matches its globs against: the path from the working directory
  when the file lies under it, the absolute path when that path would start with
  \<^verbatim>\<open>../\<close>, and the empty path for the working directory itself.
\<close>

definition cwd_prefix :: "string \<Rightarrow> string" where
  "cwd_prefix c = (if ends_with ''/'' c then c else c @ ''/'')"

definition filter_path :: "vinyl \<Rightarrow> string" where
  "filter_path f =
     (if path f = cwd f then []
      else if take (length (cwd_prefix (cwd f))) (path f) = cwd_prefix (cwd f)
      then drop (length (cwd_prefix (cwd f))) (path f)
      else path f)"

text \<open>
  The glob of \<^verbatim>\<open>processPipe\<close>, \<^verbatim>\<open>**/*.{bmp,png,jpg}\<close>, as the matcher reads it with its
  default options: the braces stand for three patterns; \<^verbatim>\<open>**/\<close> is any number of
  directories and \<^verbatim>\<open>*\<close> any run of characters inside one segment, neither of which
  matches a segment that starts with a dot; the last segment is not empty; the match is
  case sensitive.
\<close>

definition imageGlob :: "string \<Rightarrow> bool" where
  "imageGlob p =
     (list_all (\<lambda>seg. \<not> hidden seg) (split_path p) \<and>
      (ends_with ''.bmp'' (basename p) \<or> ends_with ''.png'' (basename p) \<or>
       ends_with ''.jpg'' (basename p)))"

definition matched :: "vinyl \<Rightarrow> bool" where
  "matched f = imageGlob (filter_path f)"

text \<open>
  The extension of a path, as \<^verbatim>\<open>path.extname\<close> gives it: from the last dot of the last
  segment to its end, and empty when there is no dot or the only dot comes first.
\<close>

definition extname :: "string \<Rightarrow> string" where
  "extname p =
     (let b = basename p; e = rev (takeWhile (\<lambda>c. c \<noteq> CHR ''.'') (rev b))
      in if length b \<le> length e + 1 then [] else CHR ''.'' # e)"

definition image_ext :: "string \<Rightarrow> bool" where
  "image_ext p = (extname p = ''.bmp'' \<or> extname p = ''.png'' \<or> extname p = ''.jpg'')"

text \<open>
  The external programs and the library calls that read the disk: \<^verbatim>\<open>execSync\<close> (a command
  line; when the command succeeds, the bytes it left in its output file), \<^verbatim>\<open>os.tmpdir\<close>,
  the working directory, the recompression of \<^verbatim>\<open>gulp-pngquant\<close> on the bytes of one file,
  and \<^verbatim>\<open>gulp.src\<close> (the files and directories a glob finds).
\<close>

record tools =
  execSync :: "string \<Rightarrow> error + string"
  os_tmpdir :: string
  process_cwd :: string
  pngquant :: "string \<Rightarrow> error + string"
  src :: "string \<Rightarrow> vinyl list"

text \<open>
  The recompression of every file of a stream; the first failure is the stream's error.
  What has no contents passes as it is.
\<close>

fun pngquant_all :: "(string \<Rightarrow> error + string) \<Rightarrow> vinyl list \<Rightarrow> error + vinyl list" where
  "pngquant_all q [] = Inr []"
| "pngquant_all q (f # fs) =
     (case (case contents f of
              None \<Rightarrow> Inr f
            | Some bytes \<Rightarrow>
                (case q bytes of Inl e \<Rightarrow> Inl e | Inr b \<Rightarrow> Inr (f\<lparr>contents := Some b\<rparr>))) of
        Inl e \<Rightarrow> Inl e
      | Inr g \<Rightarrow>
          (case pngquant_all q fs of
             Inl e \<Rightarrow> Inl e
           | Inr gs \<Rightarrow> Inr (g # gs)))"

text \<open>
  \<^verbatim>\<open>processPipe\<close>: the filter lets the files that match the glob through to the
  recompression and keeps the others aside; \<^verbatim>\<open>f.restore\<close> puts the two together again.
\<close>

definition processPipe :: "tools \<Rightarrow> stream \<Rightarrow> stream" where
  "processPipe t pipe =
     (case pipe of
        Inl e \<Rightarrow> Inl e
      | Inr files \<Rightarrow>
          (case pngquant_all (pngquant t) (filter matched files) of
             Inl e \<Rightarrow> Inl e
           | Inr processed \<Rightarrow> Inr (processed @ filter (\<lambda>f. \<not> matched f) files)))"

definition srcFiles :: "tools \<Rightarrow> heap \<Rightarrow> VitaProject \<Rightarrow> stream" where
  "srcFiles t h this =
     Inr (src t (template (get (h (configuration this)) ''srcDir'') @ ''/**/*''))"

definition processedSrcFiles :: "tools \<Rightarrow> heap \<Rightarrow> VitaProject \<Rightarrow> stream" where
  "processedSrcFiles t h this = processPipe t (srcFiles t h this)"

section \<open>Building the package\<close>





text \<open>
  \<^verbatim>\<open>gulp-zip\<close> gathers a stream into one archive and delivers nothing for an empty stream.
  A file is stored with its bytes under its relative path, a directory as an empty entry
  whose name ends with a slash, and what has an empty relative path is left out.
\<close>

record archive =
  archive_name :: string
  entries :: "(string \<times> string option) list"



text \<open>
  \<^verbatim>\<open>gulp.dest\<close> throws at once on a folder that is falsy. A folder that is a string is where
  every file it receives is written, under its relative path. With any other folder the
  stream fails on the first file it receives.
\<close>

record written =
  dest_folder :: string
  dest_file :: archive

definition dest :: "jsval option \<Rightarrow> error + (archive list \<Rightarrow> error + written list)" where
  "dest dir =
     (if \<not> truthy dir then Inl (Failure ''Invalid dest() folder argument'')
      else case dir of
             Some (JStr d) \<Rightarrow> Inr (\<lambda>files. Inr (map (\<lambda>a. \<lparr>dest_folder = d, dest_file = a\<rparr>) files))
           | _ \<Rightarrow> Inr (\<lambda>files. if files = [] then Inr [] else Inl (Failure ''Invalid output folder'')))"



section \<open>Asynchronous functions\<close>

text \<open>
  The operations the program starts and waits for: writing a stream under a folder
  (\<^verbatim>\<open>toPromise(pipe.pipe(gulp.dest(dir)))\<close>), one exchange on the command socket (connect
  to an address and a port, send the data, close), and the calls of the file-transfer
  client and of \<^verbatim>\<open>del\<close>. Each settles with an error or with success; an operation that
  never settles is not part of the model.
\<close>

datatype io =
    Stage stream string
  | NcSend "jsval option" "jsval option" string
  | FtpAccess "jsval option" "jsval option"
  | FtpCd "jsval option"
  | FtpUploadFromDir string
  | Del string

type_synonym outcome = "error + unit"

datatype event =
    Logged string
  | Started io
  | Finished io outcome
  | FtpClosed
  | Resolved string

text \<open>
  The body of an asynchronous function: it returns, throws, logs, closes the transfer
  session (a call that is not awaited for), or starts an operation and goes on, when that
  has settled, with what the outcome selects.
\<close>

datatype proc =
    Return
  | Throw error
  | Log string proc
  | FtpClose proc
  | Await io "outcome \<Rightarrow> proc"

text \<open>\<^verbatim>\<open>await op; rest\<close>: a rejection is thrown from the \<^verbatim>\<open>await\<close>.\<close>

definition await :: "io \<Rightarrow> proc \<Rightarrow> proc" where
  "await op rest = Await op (\<lambda>r. case r of Inl e \<Rightarrow> Throw e | Inr _ \<Rightarrow> rest)"

text \<open>\<^verbatim>\<open>await p; rest\<close> for the promise \<open>p\<close> of another asynchronous function.\<close>

primrec andThen :: "proc \<Rightarrow> proc \<Rightarrow> proc" where
  "andThen Return q = q"
| "andThen (Throw e) q = Throw e"
| "andThen (Log s p) q = Log s (andThen p q)"
| "andThen (FtpClose p) q = FtpClose (andThen p q)"
| "andThen (Await op k) q = Await op (\<lambda>r. andThen (k r) q)"

subsection \<open>The command socket\<close>

record netcat =
  nc_addr :: "jsval option"
  nc_port :: "jsval option"
  nc_retry :: nat

definition generateNetcatClient :: "heap \<Rightarrow> VitaProject \<Rightarrow> error + netcat" where
  "generateNetcatClient h this =
     (if nullish (get (h (configuration this)) ''ip'') then Inl ipIsNotDefined
      else Inr \<lparr>nc_addr = get (h (configuration this)) ''ip'',
                nc_port =
                  coalesce
                    (coalesce (opt_chain (get (h (configuration this)) ''ports'') ''cmd'')
                              (opt_chain (get (h defaults_config_addr) ''ports'') ''cmd''))
                    (Some (JNum ''1338'')),
                nc_retry = 5000\<rparr>)"

text \<open>
  \<^verbatim>\<open>sendCmdAsync\<close>. When \<^verbatim>\<open>generateNetcatClient\<close> throws, the executor rejects the promise
  with that error and goes on to \<^verbatim>\<open>nc.on\<close> with \<^verbatim>\<open>nc\<close> undefined; the \<^verbatim>\<open>TypeError\<close> of that
  call finds the promise settled and is dropped, and nothing is connected. Otherwise the
  promise settles with the exchange.
\<close>

definition sendCmdAsync :: "heap \<Rightarrow> VitaProject \<Rightarrow> string \<Rightarrow> proc" where
  "sendCmdAsync h this cmd =
     (case generateNetcatClient h this of
        Inl error \<Rightarrow> Throw error
      | Inr nc \<Rightarrow> await (NcSend (nc_addr nc) (nc_port nc) (cmd @ [CHR 0x0A])) Return)"

definition clearTempDirectoryAsync :: proc where
  "clearTempDirectoryAsync =
     Log ''Clearing temp directory...''
       (await (Del tempDir)
          (Log ''Temp directory cleared.'' Return))"

subsection \<open>Deploying\<close>

definition deployPipeAsync :: "heap \<Rightarrow> VitaProject \<Rightarrow> stream \<Rightarrow> proc" where
  "deployPipeAsync h this pipe =
     Log ''Bundling project files to temp directory.''
    (await (Stage pipe tempDir)
    (Log ''Files bundled.''
    (Log ''Closing applications just in case.''
    (andThen (sendCmdAsync h this ''destroy'')
    (Log ''Connecting to FTP server...''
    (await (FtpAccess
              (coalesce (get (h (configuration this)) ''ip'') (Some (JStr ''localhost'')))
              (coalesce
                 (coalesce (opt_chain (get (h (configuration this)) ''ports'') ''ftp'')
                           (opt_chain (get (h defaults_config_addr) ''ports'') ''ftp''))
                 (Some (JNum ''1337''))))
    (Log ''Connected to FTP server.''
    (Log ''Going to ux0: directory''
    (await (FtpCd (Some (JStr ''ux0:'')))
    (Log ''Going to app directory''
    (await (FtpCd (Some (JStr ''app'')))
    (Log (''Going to '' @ template (get (h (configuration this)) ''id'') @ '' directory'')
    (await (FtpCd (coalesce (get (h (configuration this)) ''id'')
                            (get (h defaults_config_addr) ''id'')))
    (Log ''Uploading files...''
    (await (FtpUploadFromDir tempDir)
    (Log ''Files uploaded.''
    (Log ''Closing connection.''
    (FtpClose
    (Log ''Connection closed''
    (Log ''Opening application again''
    (andThen (sendCmdAsync h this
                (''launch '' @ template (get (h (configuration this)) ''id'')))
    (Log ''Opened application.''
    (Log ''Clearing temp directory''
    (andThen clearTempDirectoryAsync
    (Log ''Cleared temp directory.''
     Return)))))))))))))))))))))))))"

subsection \<open>The device and the disk\<close>

text \<open>
  What answers the operations: the directories of the device, each the list of its
  segments from the root, the directory the transfer session stands in, and the
  failures of the disk and of the network, which may hit any operation. A change of
  directory is refused with \<^verbatim>\<open>RemoteDirNotFound\<close> when the segment is not a directory of
  the current one; the session starts at the root.
\<close>

record world =
  faults :: "io \<Rightarrow> error option"
  remote_dirs :: "string list list"
  remote_cwd :: "string list"

definition respond :: "world \<Rightarrow> io \<Rightarrow> outcome \<times> world" where
  "respond w op =
     (case faults w op of
        Some e \<Rightarrow> (Inl e, w)
      | None \<Rightarrow>
          (case op of
             Stage s d \<Rightarrow> (case s of Inl e \<Rightarrow> (Inl e, w) | Inr _ \<Rightarrow> (Inr (), w))
           | NcSend a p d \<Rightarrow> (Inr (), w)
           | FtpAccess a p \<Rightarrow> (Inr (), w\<lparr>remote_cwd := []\<rparr>)
           | FtpCd p \<Rightarrow>
               (case p of
                  Some (JStr seg) \<Rightarrow>
                    if remote_cwd w @ [seg] \<in> set (remote_dirs w)
                    then (Inr (), w\<lparr>remote_cwd := remote_cwd w @ [seg]\<rparr>)
                    else (Inl RemoteDirNotFound, w)
                | _ \<Rightarrow> (Inl TypeError, w))
           | FtpUploadFromDir d \<Rightarrow> (Inr (), w)
           | Del d \<Rightarrow> (Inr (), w)))"

text \<open>
  An asynchronous function that is awaited for, run to its end: every operation is
  started, settles, and only then does the function go on.
\<close>

primrec run :: "proc \<Rightarrow> world \<Rightarrow> event list \<Rightarrow> event list \<times> outcome \<times> world" where
  "run Return w tr = (tr, Inr (), w)"
| "run (Throw e) w tr = (tr, Inl e, w)"
| "run (Log s p) w tr = run p w (tr @ [Logged s])"
| "run (FtpClose p) w tr = run p w (tr @ [FtpClosed])"
| "run (Await op k) w tr =
     (case respond w op of
        (r, w') \<Rightarrow> run (k r) w' (tr @ [Started op, Finished op r]))"

text \<open>
  The call of an asynchronous function: its body runs up to its first \<^verbatim>\<open>await\<close>, where the
  operation is started, and the caller gets a promise back and goes on. The function is
  then settled, or suspended on that operation.
\<close>

datatype fiber = Settled outcome | Suspended io "outcome \<Rightarrow> proc"

primrec call :: "proc \<Rightarrow> event list \<Rightarrow> event list \<times> fiber" where
  "call Return tr = (tr, Settled (Inr ()))"
| "call (Throw e) tr = (tr, Settled (Inl e))"
| "call (Log s p) tr = call p (tr @ [Logged s])"
| "call (FtpClose p) tr = call p (tr @ [FtpClosed])"
| "call (Await op k) tr = (tr @ [Started op], Suspended op k)"

text \<open>A suspended function goes on when its operation settles.\<close>

definition resume :: "fiber \<Rightarrow> world \<Rightarrow> event list \<Rightarrow> event list \<times> outcome \<times> world" where
  "resume f w tr =
     (case f of
        Settled r \<Rightarrow> (tr, r, w)
      | Suspended op k \<Rightarrow>
          (case respond w op of (r, w') \<Rightarrow> run (k r) w' (tr @ [Finished op r])))"

text \<open>
  \<^verbatim>\<open>deployAsync\<close> calls \<^verbatim>\<open>deployPipeAsync\<close> and neither awaits nor returns its promise: its own
  promise is fulfilled when the call has come back. The result is the trace at that
  moment and the function left running.
\<close>

definition deployAsync :: "tools \<Rightarrow> heap \<Rightarrow> VitaProject \<Rightarrow> event list \<Rightarrow> event list \<times> fiber" where
  "deployAsync t h this tr =
     (case call (deployPipeAsync h this (processedSrcFiles t h this)) tr of
        (tr', running) \<Rightarrow> (tr' @ [Resolved ''deployAsync''], running))"

text \<open>
  The task \<^verbatim>\<open>deploy\<close>: a new project, then \<^verbatim>\<open>await project.deployAsync()\<close>. The task is done
  when that promise is fulfilled; what \<^verbatim>\<open>deployPipeAsync\<close> still has to do happens after.
\<close>

definition task_deploy ::
  "filesys \<Rightarrow> json_parser \<Rightarrow> tools \<Rightarrow> heap \<Rightarrow> world \<Rightarrow> error + event list \<times> outcome \<times> world" where
  "task_deploy fs JSON_parse t h w =
     (case new_VitaProject fs JSON_parse None h of
        (Inl e, h') \<Rightarrow> Inl e
      | (Inr project, h') \<Rightarrow>
          (case deployAsync t h' project [] of
             (tr, running) \<Rightarrow> Inr (resume running w (tr @ [Resolved ''deploy'']))))"

subsection \<open>Reading a trace\<close>

text \<open>The operations that go over the network, and the directory changes a trace starts.\<close>

fun network :: "io \<Rightarrow> bool" where
  "network (Stage s d) = False"
| "network (NcSend a p d) = True"
| "network (FtpAccess a p) = True"
| "network (FtpCd p) = True"
| "network (FtpUploadFromDir d) = True"
| "network (Del d) = False"

fun cds :: "event list \<Rightarrow> jsval option list" where
  "cds [] = []"
| "cds (Started (FtpCd p) # evs) = p # cds evs"
| "cds (ev # evs) = cds evs"

section \<open>An example project\<close>

text \<open>
  The project of the specification: id \<^verbatim>\<open>TESTGAME1\<close>, title \<^verbatim>\<open>Test Game\<close>, sources in
  \<^verbatim>\<open>src\<close>, output in \<^verbatim>\<open>dist\<close>. The file system is given by the paths that exist.
\<close>

definition example_text :: string where
  \<open>example_text =
     ''{"id": "TESTGAME1", "title": "Test Game", "srcDir": "src", "outDir": "dist"}''\<close>

definition example_descriptor :: jsval where
  "example_descriptor =
     JObj [(''id'', JStr ''TESTGAME1''), (''title'', JStr ''Test Game''),
           (''srcDir'', JStr ''src''), (''outDir'', JStr ''dist'')]"

definition example_parse :: json_parser where
  "example_parse t =
     (if t = example_text then Inr example_descriptor
      else if t = ''{}'' then Inr (JObj [])
      else Inl SyntaxError)"

definition example_fs :: "string list \<Rightarrow> filesys" where
  "example_fs present =
     \<lparr>existsSync = (\<lambda>p. p \<in> set present),
      readFileSync = (\<lambda>p. if p = projectConfigurationFilePath then Inr example_text
                           else Inl (Failure ''ENOENT''))\<rparr>"

text \<open>The same project once its descriptor has been emptied.\<close>

definition emptied_fs :: filesys where
  "emptied_fs = \<lparr>existsSync = (\<lambda>p. True), readFileSync = (\<lambda>p. Inr ''{}'')\<rparr>"

definition example_project :: VitaProject where
  "example_project = \<lparr>configuration = defaults_config_addr\<rparr>"

text \<open>
  The store once a descriptor is loaded: that of the example, the same with a device
  address, and the same with an empty output directory.
\<close>

definition store_of :: "(string \<times> jsval) list \<Rightarrow> heap" where
  "store_of kvs = (\<lambda>a. literal [])(defaults_config_addr := literal kvs)"

definition example_heap :: heap where
  "example_heap =
     store_of
       [(''id'', JStr ''TESTGAME1''), (''title'', JStr ''Test Game''),
        (''ports'', JObj [(''ftp'', JNum ''1337''), (''cmd'', JNum ''1338'')]),
        (''srcDir'', JStr ''src''), (''outDir'', JStr ''dist'')]"

definition device_heap :: heap where
  "device_heap =
     store_of
       [(''id'', JStr ''TESTGAME1''), (''title'', JStr ''Test Game''),
        (''ports'', JObj [(''ftp'', JNum ''1337''), (''cmd'', JNum ''1338'')]),
        (''srcDir'', JStr ''src''), (''outDir'', JStr ''dist''),
        (''ip'', JStr ''192.168.1.20'')]"


text \<open>The sources: two files, and a directory with an image in it.\<close>

definition eboot_bin :: vinyl where
  "eboot_bin =
     \<lparr>cwd = ''/home/dev/game'', path = ''/home/dev/game/src/eboot.bin'',
      relative = ''eboot.bin'', contents = Some ''ELF''\<rparr>"

definition index_lua :: vinyl where
  "index_lua =
     \<lparr>cwd = ''/home/dev/game'', path = ''/home/dev/game/src/index.lua'',
      relative = ''index.lua'', contents = Some ''-- main''\<rparr>"

definition img_dir :: vinyl where
  "img_dir =
     \<lparr>cwd = ''/home/dev/game'', path = ''/home/dev/game/src/img'',
      relative = ''img'', contents = None\<rparr>"

definition logo_png :: vinyl where
  "logo_png =
     \<lparr>cwd = ''/home/dev/game'', path = ''/home/dev/game/src/img/logo.png'',
      relative = ''img/logo.png'', contents = Some ''PNG''\<rparr>"

definition example_tools :: "vinyl list \<Rightarrow> tools" where
  \<open>example_tools sources =
     \<lparr>execSync =
        (\<lambda>c. if c = ''vita-mksfoex -s TITLE_ID=TESTGAME1 "Test Game" /tmp/param.sfo''
              then Inr ''PSF'' else Inl (Failure ''command failed'')),
      os_tmpdir = ''/tmp'',
      process_cwd = ''/home/dev/game'',
      pngquant = (\<lambda>b. Inr (''quantized '' @ b)),
      src = (\<lambda>g. if g = ''src/**/*'' then sources else [])\<rparr>\<close>

text \<open>The same tools on a machine where the metadata tool is not installed.\<close>

definition toolless :: "vinyl list \<Rightarrow> tools" where
  "toolless sources =
     \<lparr>execSync = (\<lambda>c. Inl (Failure ''vita-mksfoex: not found'')),
      os_tmpdir = ''/tmp'',
      process_cwd = ''/home/dev/game'',
      pngquant = (\<lambda>b. Inr (''quantized '' @ b)),
      src = (\<lambda>g. if g = ''src/**/*'' then sources else [])\<rparr>"

definition example_world :: "string list list \<Rightarrow> world" where
  "example_world dirs = \<lparr>faults = (\<lambda>op. None), remote_dirs = dirs, remote_cwd = []\<rparr>"

text \<open>The same project with the address of a device in its descriptor.\<close>

definition device_text :: string where
  \<open>device_text = ''{"id": "TESTGAME1", "title": "Test Game", "ip": "192.168.1.20"}''\<close>

definition device_descriptor :: jsval where
  "device_descriptor =
     JObj [(''id'', JStr ''TESTGAME1''), (''title'', JStr ''Test Game''),
           (''ip'', JStr ''192.168.1.20'')]"

definition device_parse :: json_parser where
  "device_parse t = (if t = device_text then Inr device_descriptor else Inl SyntaxError)"

definition device_fs :: filesys where
  "device_fs =
     \<lparr>existsSync = (\<lambda>p. p \<in> set [projectConfigurationFilePath, ''src/'', ''src/eboot.bin'',
                                   ''src/index.lua'']),
      readFileSync = (\<lambda>p. if p = projectConfigurationFilePath then Inr device_text
                           else Inl (Failure ''ENOENT''))\<rparr>"





text \<open>A descriptor that names a prototype.\<close>

definition proto_text :: string where
  \<open>proto_text = ''{"__proto__": {"ip": "10.0.0.1"}}''\<close>

definition proto_descriptor :: jsval where
  "proto_descriptor = JObj [(''__proto__'', JObj [(''ip'', JStr ''10.0.0.1'')])]"

definition proto_parse :: json_parser where
  "proto_parse t =
     (if t = proto_text then Inr proto_descriptor
      else if t = example_text then Inr example_descriptor
      else Inl SyntaxError)"

definition proto_fs :: filesys where
  "proto_fs = \<lparr>existsSync = (\<lambda>p. True), readFileSync = (\<lambda>p. Inr proto_text)\<rparr>"

section \<open>Properties of validation\<close>

lemma nullish_simps:
  "nullish None" "nullish (Some JNull)" "\<not> nullish (Some (JStr s))"
  "\<not> nullish (Some (JNum n))" "\<not> nullish (Some (JBool b))"
  "\<not> nullish (Some (JArr xs))" "\<not> nullish (Some (JObj kvs))"
  by (simp_all add: nullish_def)

lemma get_literal: "get (literal kvs) k = map_of kvs k"
  by (simp add: get_def literal_def split: option.splits)

text \<open>
  C6. A configuration whose \<^verbatim>\<open>id\<close> is \<^verbatim>\<open>null\<close> or absent, or whose \<^verbatim>\<open>id.length\<close> is not the
  number 9, is refused with \<^verbatim>\<open>errors.idDoesNotConformRequirements\<close>, whatever its title:
  the check on the id comes first, and the result is that one error.
\<close>

theorem validateConfiguration_invalid_id:
  assumes "nullish (get config ''id'') \<or>
           (\<exists>v. get config ''id'' = Some v \<and> js_prop v ''length'' \<noteq> Some (JNum ''9''))"
  shows "validateConfiguration config = Inl idDoesNotConformRequirements"
proof -
  from assms consider
      (null) "nullish (get config ''id'')"
    | (len) v where "get config ''id'' = Some v" "\<not> nullish (Some v)"
        "js_prop v ''length'' \<noteq> Some (JNum ''9'')"
    by (cases "nullish (get config ''id'')") auto
  then show ?thesis
  proof cases
    case null
    then show ?thesis by (simp add: validateConfiguration_def)
  next
    case len
    then have "opt_chain (get config ''id'') ''length'' \<noteq> Some (JNum ''9'')"
      by (cases v) (simp_all add: opt_chain_def nullish_def)
    then show ?thesis by (simp add: validateConfiguration_def)
  qed
qed

lemma show_nat_digit: "n < 10 \<Longrightarrow> show_nat n = [''0123456789'' ! n]"
  by (simp add: show_nat.simps)

theorem validateConfiguration_invalid_id_witness:
  "validateConfiguration (literal [(''id'', JStr ''SHORT''), (''title'', JNull)])
     = Inl idDoesNotConformRequirements
   \<and> validateConfiguration (literal [(''title'', JStr ''Test Game'')])
     = Inl idDoesNotConformRequirements"
proof -
  have "validateConfiguration (literal [(''id'', JStr ''SHORT''), (''title'', JNull)])
          = Inl idDoesNotConformRequirements"
    by (rule validateConfiguration_invalid_id) (simp add: get_literal show_nat_digit)
  moreover have "validateConfiguration (literal [(''title'', JStr ''Test Game'')])
          = Inl idDoesNotConformRequirements"
    by (rule validateConfiguration_invalid_id) (simp add: get_literal nullish_simps)
  ultimately show ?thesis by simp
qed

text \<open>
  C2, as the code has it. A configuration whose \<^verbatim>\<open>title\<close> is \<^verbatim>\<open>null\<close> or absent is never
  accepted: it is refused with \<^verbatim>\<open>errors.titleIsNotAvailable\<close> when its id passes the check
  on the id, and with the error of the id otherwise.
\<close>

theorem validateConfiguration_null_title:
  assumes "nullish (get config ''title'')"
  shows "validateConfiguration config =
           (if nullish (get config ''id'') \<or>
               opt_chain (get config ''id'') ''length'' \<noteq> Some (JNum ''9'')
            then Inl idDoesNotConformRequirements
            else Inl titleIsNotAvailable)
         \<and> validateConfiguration config \<noteq> Inr ()"
  using assms by (simp add: validateConfiguration_def)

theorem validateConfiguration_null_title_witness:
  "validateConfiguration (literal [(''id'', JStr ''TESTGAME1''), (''title'', JNull)])
     = Inl titleIsNotAvailable
   \<and> validateConfiguration (literal [(''id'', JStr ''TESTGAME1'')]) = Inl titleIsNotAvailable"
proof -
  have a: "nullish (get (literal [(''id'', JStr ''TESTGAME1''), (''title'', JNull)]) ''title'')"
    by (simp add: get_literal nullish_simps)
  have b: "nullish (get (literal [(''id'', JStr ''TESTGAME1'')]) ''title'')"
    by (simp add: get_literal nullish_simps)
  show ?thesis
    using validateConfiguration_null_title [OF a] validateConfiguration_null_title [OF b]
    by (simp add: get_literal nullish_simps opt_chain_def show_nat_digit)
qed

text \<open>
  The empty title is a string, not \<^verbatim>\<open>null\<close>: with a valid id the configuration is accepted.
\<close>

theorem validateConfiguration_empty_title_counterexample:
  "get (literal [(''id'', JStr ''TESTGAME1''), (''title'', JStr [])]) ''title'' = Some (JStr [])
   \<and> validateConfiguration (literal [(''id'', JStr ''TESTGAME1''), (''title'', JStr [])])
       = Inr ()"
  by (simp add: validateConfiguration_def get_literal nullish_simps opt_chain_def show_nat_digit)

section \<open>Properties of loading\<close>

text \<open>Writing the properties of a source with distinct keys: the source wins key by key.\<close>

lemma map_of_fold_update:
  "distinct (map fst kvs) \<Longrightarrow>
   map_of (fold (\<lambda>(k, v). AList.update k v) kvs t) x =
     (case map_of kvs x of Some v \<Rightarrow> Some v | None \<Rightarrow> map_of t x)"
proof (induction kvs arbitrary: t)
  case Nil
  then show ?case by simp
next
  case (Cons p kvs)
  obtain k v where p: "p = (k, v)" by (cases p)
  from Cons.prems p have d: "distinct (map fst kvs)" and nk: "k \<notin> fst ` set kvs" by auto
  from nk have none: "map_of kvs k = None" by (simp add: map_of_eq_None_iff)
  show ?case
    using Cons.IH [OF d, of "AList.update k v t"] none
    by (auto simp: p update_conv' split: option.splits)
qed

lemma set_prop_plain:
  "k \<noteq> ''__proto__'' \<Longrightarrow> set_prop obj k v = obj\<lparr>props := AList.update k v (props obj)\<rparr>"
  by (simp add: set_prop_def)

lemma fold_set_prop_plain:
  "''__proto__'' \<notin> fst ` set kvs \<Longrightarrow>
   fold (\<lambda>(k, v) obj. set_prop obj k v) kvs obj =
     obj\<lparr>props := fold (\<lambda>(k, v). AList.update k v) kvs (props obj)\<rparr>"
proof (induction kvs arbitrary: obj)
  case Nil
  then show ?case by simp
next
  case (Cons p kvs)
  obtain k v where p: "p = (k, v)" by (cases p)
  with Cons.prems have "k \<noteq> ''__proto__''" and "''__proto__'' \<notin> fst ` set kvs" by auto
  with Cons.IH [of "set_prop obj k v"] show ?case
    by (simp add: p set_prop_plain)
qed

text \<open>
  A source that has no property \<^verbatim>\<open>__proto__\<close> leaves the prototype of the target alone,
  and every property reads from the source first.
\<close>

lemma assign_props_lookup:
  assumes "distinct (map fst kvs)" and "map_of kvs ''__proto__'' = None"
  shows "get (assign_props target (JObj kvs)) x =
           (case map_of kvs x of Some v \<Rightarrow> Some v | None \<Rightarrow> get target x)"
proof -
  from assms(2) have "''__proto__'' \<notin> fst ` set kvs"
    by (simp add: map_of_eq_None_iff)
  then have "assign_props target (JObj kvs) =
      target\<lparr>props := fold (\<lambda>(k, v). AList.update k v) kvs (props target)\<rparr>"
    by (simp add: assign_props_def fold_set_prop_plain)
  then show ?thesis
    using assms(1) by (simp add: get_def map_of_fold_update split: option.splits)
qed

lemma readConfiguration_loads:
  assumes "existsSync fs filePath" "readFileSync fs filePath = Inr json"
    "JSON_parse json = Inr parsed"
  shows "readConfiguration fs JSON_parse filePath h =
           (Inr defaults_config_addr,
            h(defaults_config_addr := assign_props (h defaults_config_addr) parsed))"
  using assms by (simp add: readConfiguration_def Object_assign_def)

text \<open>
  C5, as the code has it. The descriptor exists, is read and parses to an object (its
  keys distinct, as the keys of an object are) that has no key \<^verbatim>\<open>__proto__\<close>. Loading it in
  a module that has loaded nothing before returns a configuration in which every key of
  the descriptor has the descriptor's value and every other key has the value of the
  hard-coded defaults. The merge is shallow: a key such as \<^verbatim>\<open>ports\<close> is taken whole from
  one side.
\<close>

theorem readConfiguration_merge:
  assumes "existsSync fs filePath" and "readFileSync fs filePath = Inr json"
    and "JSON_parse json = Inr (JObj kvs)" and "distinct (map fst kvs)"
    and "map_of kvs ''__proto__'' = None"
  shows "\<exists>c h'. readConfiguration fs JSON_parse filePath module_heap = (Inr c, h')
           \<and> (\<forall>k v. map_of kvs k = Some v \<longrightarrow> get (h' c) k = Some v)
           \<and> (\<forall>k. map_of kvs k = None \<longrightarrow> get (h' c) k = get defaults_config k)"
proof -
  let ?h' = "module_heap(defaults_config_addr :=
               assign_props (module_heap defaults_config_addr) (JObj kvs))"
  have "readConfiguration fs JSON_parse filePath module_heap = (Inr defaults_config_addr, ?h')"
    using assms(1-3) by (rule readConfiguration_loads)
  moreover have "get (?h' defaults_config_addr) k =
      (case map_of kvs k of Some v \<Rightarrow> Some v | None \<Rightarrow> get defaults_config k)" for k
    using assms(4,5) by (simp add: assign_props_lookup module_heap_def)
  ultimately show ?thesis by (intro exI conjI) (assumption, simp_all)
qed

theorem readConfiguration_merge_witness:
  "\<exists>c h'. readConfiguration (example_fs [projectConfigurationFilePath]) example_parse
             projectConfigurationFilePath module_heap = (Inr c, h')
     \<and> get (h' c) ''title'' = Some (JStr ''Test Game'')
     \<and> get (h' c) ''ports'' = Some (JObj [(''ftp'', JNum ''1337''), (''cmd'', JNum ''1338'')])"
proof -
  let ?kvs = "[(''id'', JStr ''TESTGAME1''), (''title'', JStr ''Test Game''),
               (''srcDir'', JStr ''src''), (''outDir'', JStr ''dist'')]"
  have "\<exists>c h'. readConfiguration (example_fs [projectConfigurationFilePath]) example_parse
             projectConfigurationFilePath module_heap = (Inr c, h')
     \<and> (\<forall>k v. map_of ?kvs k = Some v \<longrightarrow> get (h' c) k = Some v)
     \<and> (\<forall>k. map_of ?kvs k = None \<longrightarrow> get (h' c) k = get defaults_config k)"
    by (rule readConfiguration_merge [where json = example_text])
       (simp_all add: example_fs_def example_parse_def example_descriptor_def)
  then obtain c h' where
    r: "readConfiguration (example_fs [projectConfigurationFilePath]) example_parse
          projectConfigurationFilePath module_heap = (Inr c, h')"
    and p: "\<forall>k v. map_of ?kvs k = Some v \<longrightarrow> get (h' c) k = Some v"
    and a: "\<forall>k. map_of ?kvs k = None \<longrightarrow> get (h' c) k = get defaults_config k"
    by blast
  from p have "get (h' c) ''title'' = Some (JStr ''Test Game'')" by simp
  moreover from a
  have "get (h' c) ''ports'' = Some (JObj [(''ftp'', JNum ''1337''), (''cmd'', JNum ''1338'')])"
    by (simp add: defaults_config_def get_literal)
  ultimately show ?thesis using r by blast
qed

text \<open>
  A descriptor with the key \<^verbatim>\<open>__proto__\<close>: \<^verbatim>\<open>Object.assign\<close> writes it through the setter of
  the prototype, and the key \<^verbatim>\<open>ip\<close>, which the descriptor does not have at its top level
  and the defaults do not have at all, now reads from the new prototype.
\<close>

lemma proto_loaded:
  "readConfiguration proto_fs proto_parse projectConfigurationFilePath h =
     (Inr defaults_config_addr,
      h(defaults_config_addr :=
          (h defaults_config_addr)
            \<lparr>prototype := (if map_of (props (h defaults_config_addr)) ''__proto__'' = None
                               \<and> reaches_setter (prototype (h defaults_config_addr))
                            then ProtoValue (JObj [(''ip'', JStr ''10.0.0.1'')])
                            else prototype (h defaults_config_addr)),
             props := (if map_of (props (h defaults_config_addr)) ''__proto__'' = None
                          \<and> reaches_setter (prototype (h defaults_config_addr))
                       then props (h defaults_config_addr)
                       else AList.update ''__proto__'' (JObj [(''ip'', JStr ''10.0.0.1'')])
                              (props (h defaults_config_addr)))\<rparr>))"
  by (subst readConfiguration_loads [where json = proto_text and parsed = proto_descriptor])
     (simp_all add: proto_fs_def proto_parse_def proto_descriptor_def assign_props_def
        set_prop_def)

theorem readConfiguration_merge_counterexample:
  "readFileSync proto_fs projectConfigurationFilePath = Inr proto_text
   \<and> proto_parse proto_text = Inr (JObj [(''__proto__'', JObj [(''ip'', JStr ''10.0.0.1'')])])
   \<and> map_of [(''__proto__'', JObj [(''ip'', JStr ''10.0.0.1'')])] ''ip'' = None
   \<and> get defaults_config ''ip'' = None
   \<and> fst (readConfiguration proto_fs proto_parse projectConfigurationFilePath module_heap)
       = Inr defaults_config_addr
   \<and> get (snd (readConfiguration proto_fs proto_parse projectConfigurationFilePath module_heap)
            defaults_config_addr) ''ip'' = Some (JStr ''10.0.0.1'')"
  by (simp add: proto_loaded)
     (simp add: proto_fs_def proto_parse_def proto_descriptor_def module_heap_def
        defaults_config_def literal_def get_def reaches_setter_def)

text \<open>
  C10, as the code has it. \<^verbatim>\<open>readConfiguration\<close> returns the reference of
  \<^verbatim>\<open>defaults.config\<close> itself, and the object behind it has been written to: after a load,
  the defaults are the loaded configuration. A second load in the same module, of a
  descriptor that parses to an object without the key \<^verbatim>\<open>__proto__\<close>, starts from there: a
  key its descriptor lacks keeps the value the first load left, not the value the module
  was created with.
\<close>

theorem readConfiguration_returns_defaults:
  assumes "existsSync fs1 p1" and "readFileSync fs1 p1 = Inr json1"
    and "JSON_parse json1 = Inr parsed1"
    and "existsSync fs2 p2" and "readFileSync fs2 p2 = Inr json2"
    and "JSON_parse json2 = Inr (JObj kvs2)" and "distinct (map fst kvs2)"
    and "map_of kvs2 ''__proto__'' = None"
  shows "\<exists>h1 h2.
           readConfiguration fs1 JSON_parse p1 h = (Inr defaults_config_addr, h1)
           \<and> h1 defaults_config_addr = assign_props (h defaults_config_addr) parsed1
           \<and> readConfiguration fs2 JSON_parse p2 h1 = (Inr defaults_config_addr, h2)
           \<and> (\<forall>k. map_of kvs2 k = None \<longrightarrow>
                 get (h2 defaults_config_addr) k = get (h1 defaults_config_addr) k)"
proof -
  let ?h1 = "h(defaults_config_addr := assign_props (h defaults_config_addr) parsed1)"
  let ?h2 = "?h1(defaults_config_addr := assign_props (?h1 defaults_config_addr) (JObj kvs2))"
  have 1: "readConfiguration fs1 JSON_parse p1 h = (Inr defaults_config_addr, ?h1)"
    using assms(1-3) by (rule readConfiguration_loads)
  have 2: "readConfiguration fs2 JSON_parse p2 ?h1 = (Inr defaults_config_addr, ?h2)"
    using assms(4-6) by (rule readConfiguration_loads)
  have 3: "get (?h2 defaults_config_addr) k = get (?h1 defaults_config_addr) k"
    if "map_of kvs2 k = None" for k
    using assms(7,8) that by (simp add: assign_props_lookup)
  show ?thesis
    apply (rule exI [of _ ?h1], rule exI [of _ ?h2])
    using 1 2 3 by simp
qed

theorem readConfiguration_returns_defaults_witness:
  "\<exists>h1 h2.
     readConfiguration (example_fs [projectConfigurationFilePath]) example_parse
       projectConfigurationFilePath module_heap = (Inr defaults_config_addr, h1)
     \<and> readConfiguration emptied_fs example_parse projectConfigurationFilePath h1
         = (Inr defaults_config_addr, h2)
     \<and> get (h2 defaults_config_addr) ''title'' = Some (JStr ''Test Game'')
     \<and> get defaults_config ''title'' = Some (JStr ''Hello World'')"
proof -
  have a: "existsSync (example_fs [projectConfigurationFilePath]) projectConfigurationFilePath"
    by (simp add: example_fs_def)
  have b: "readFileSync (example_fs [projectConfigurationFilePath]) projectConfigurationFilePath
             = Inr example_text"
    by (simp add: example_fs_def)
  have c: "example_parse example_text = Inr example_descriptor"
    by (simp add: example_parse_def)
  have d: "existsSync emptied_fs projectConfigurationFilePath"
    by (simp add: emptied_fs_def)
  have e: "readFileSync emptied_fs projectConfigurationFilePath = Inr ''{}''"
    by (simp add: emptied_fs_def)
  have f: "example_parse ''{}'' = Inr (JObj [])"
    by (simp add: example_parse_def example_text_def)
  have g: "distinct (map fst ([] :: (string \<times> jsval) list))" by simp
  have n: "map_of ([] :: (string \<times> jsval) list) ''__proto__'' = None" by simp
  from readConfiguration_returns_defaults [OF a b c d e f g n, of module_heap]
  obtain h1 h2 where
    1: "readConfiguration (example_fs [projectConfigurationFilePath]) example_parse
          projectConfigurationFilePath module_heap = (Inr defaults_config_addr, h1)"
    and 2: "h1 defaults_config_addr
              = assign_props (module_heap defaults_config_addr) example_descriptor"
    and 3: "readConfiguration emptied_fs example_parse projectConfigurationFilePath h1
              = (Inr defaults_config_addr, h2)"
    and 4: "\<forall>k. map_of [] k = (None :: jsval option) \<longrightarrow>
              get (h2 defaults_config_addr) k = get (h1 defaults_config_addr) k"
    by blast
  from 4 have "get (h2 defaults_config_addr) ''title'' = get (h1 defaults_config_addr) ''title''"
    by simp
  also have "\<dots> = Some (JStr ''Test Game'')"
    by (simp add: 2 module_heap_def defaults_config_def example_descriptor_def
        assign_props_def set_prop_def literal_def get_def)
  finally have "get (h2 defaults_config_addr) ''title'' = Some (JStr ''Test Game'')" .
  moreover have "get defaults_config ''title'' = Some (JStr ''Hello World'')"
    by (simp add: defaults_config_def get_literal)
  ultimately show ?thesis using 1 3 by blast
qed

text \<open>
  A second descriptor with the key \<^verbatim>\<open>__proto__\<close>: the key \<^verbatim>\<open>ip\<close> is missing from it, the first
  load left \<^verbatim>\<open>ip\<close> undefined, and after the second load \<^verbatim>\<open>ip\<close> reads from the new prototype.
\<close>

lemma example_store:
  "module_heap(defaults_config_addr :=
     assign_props (module_heap defaults_config_addr) example_descriptor) = example_heap"
proof -
  have "assign_props defaults_config example_descriptor = example_heap defaults_config_addr"
    by (simp add: assign_props_def set_prop_def defaults_config_def example_descriptor_def
        example_heap_def store_of_def literal_def)
  then show ?thesis
    by (auto simp: module_heap_def example_heap_def store_of_def)
qed

lemma example_first_load:
  "readConfiguration (example_fs [projectConfigurationFilePath]) proto_parse
     projectConfigurationFilePath module_heap = (Inr defaults_config_addr, example_heap)"
  by (subst readConfiguration_loads [where json = example_text and parsed = example_descriptor])
     (simp_all add: example_fs_def proto_parse_def proto_text_def example_text_def
        example_store)

theorem readConfiguration_returns_defaults_counterexample:
  "readConfiguration (example_fs [projectConfigurationFilePath]) proto_parse
     projectConfigurationFilePath module_heap = (Inr defaults_config_addr, example_heap)
   \<and> get (example_heap defaults_config_addr) ''ip'' = None
   \<and> proto_parse proto_text = Inr (JObj [(''__proto__'', JObj [(''ip'', JStr ''10.0.0.1'')])])
   \<and> map_of [(''__proto__'', JObj [(''ip'', JStr ''10.0.0.1'')])] ''ip'' = None
   \<and> fst (readConfiguration proto_fs proto_parse projectConfigurationFilePath example_heap)
       = Inr defaults_config_addr
   \<and> get (snd (readConfiguration proto_fs proto_parse projectConfigurationFilePath example_heap)
            defaults_config_addr) ''ip'' = Some (JStr ''10.0.0.1'')"
  by (simp add: example_first_load proto_loaded)
     (simp add: proto_parse_def proto_descriptor_def example_heap_def store_of_def
        literal_def get_def reaches_setter_def)

section \<open>Properties of the check of the required files\<close>




section \<open>Properties of the processing of images\<close>

text \<open>The glob matches only paths whose extension is one of the three.\<close>

lemma split_path_nonempty: "split_path p \<noteq> []"
  by (induction p) (auto split: list.splits)

lemma split_path_append_slash:
  "split_path (x @ CHR ''/'' # r) = split_path x @ split_path r"
  by (induction x) (auto simp: split_path_nonempty split: list.splits)

lemma basename_append_slash: "basename (x @ CHR ''/'' # r) = basename r"
  by (simp add: basename_def split_path_append_slash split_path_nonempty)

lemma ends_withD: "ends_with e s \<Longrightarrow> \<exists>x. s = x @ e"
  unfolding ends_with_def by (metis append_take_drop_id)

lemma cwd_prefix_slash: "\<exists>x. cwd_prefix c = x @ ''/''"
  using ends_withD [of "''/''" c] by (auto simp: cwd_prefix_def)

text \<open>The filter sees the last segment of the path of the file, whatever it cuts in front.\<close>

lemma basename_filter_path:
  assumes "filter_path f \<noteq> []"
  shows "basename (filter_path f) = basename (path f)"
proof (cases "take (length (cwd_prefix (cwd f))) (path f) = cwd_prefix (cwd f)")
  case True
  obtain x where x: "cwd_prefix (cwd f) = x @ ''/''"
    using cwd_prefix_slash by blast
  have "path f = take (length (cwd_prefix (cwd f))) (path f)
                   @ drop (length (cwd_prefix (cwd f))) (path f)"
    by simp
  with True x
  have p: "path f = x @ CHR ''/'' # drop (length (cwd_prefix (cwd f))) (path f)"
    by simp
  have "basename (path f) = basename (drop (length (cwd_prefix (cwd f))) (path f))"
    by (subst p) (rule basename_append_slash)
  with assms True show ?thesis
    by (simp add: filter_path_def split: if_splits)
next
  case False
  with assms show ?thesis by (simp add: filter_path_def split: if_splits)
qed

lemma extname_of_suffix:
  assumes b: "basename p = x @ CHR ''.'' # e" and x: "x \<noteq> []"
    and e: "CHR ''.'' \<notin> set e"
  shows "extname p = CHR ''.'' # e"
proof -
  have "takeWhile (\<lambda>c. c \<noteq> CHR ''.'') (rev (x @ CHR ''.'' # e)) = rev e"
    using e by (auto simp add: takeWhile_tail takeWhile_eq_all_conv)
  then show ?thesis using x by (simp add: extname_def b Let_def)
qed

lemma imageGlob_image_ext:
  assumes "imageGlob p"
  shows "image_ext p"
proof -
  from assms have all: "list_all (\<lambda>seg. \<not> hidden seg) (split_path p)"
    and ext: "ends_with ''.bmp'' (basename p) \<or> ends_with ''.png'' (basename p) \<or>
       ends_with ''.jpg'' (basename p)"
    by (simp_all add: imageGlob_def)
  have "basename p \<in> set (split_path p)"
    by (simp add: basename_def split_path_nonempty)
  with all have nh: "\<not> hidden (basename p)" by (simp add: list_all_iff)
  have step: "extname p = CHR ''.'' # e"
    if "ends_with (CHR ''.'' # e) (basename p)" "CHR ''.'' \<notin> set e" for e
  proof -
    from that(1) obtain x where b: "basename p = x @ CHR ''.'' # e"
      using ends_withD by blast
    with nh have "x \<noteq> []" by (auto simp: hidden_def)
    then show ?thesis using b that(2) by (simp add: extname_of_suffix)
  qed
  from ext show ?thesis
    by (auto simp: image_ext_def dest!: step)
qed

lemma image_ext_basename: "basename p = basename q \<Longrightarrow> image_ext p = image_ext q"
  by (simp add: image_ext_def extname_def)

lemma imageGlob_nonempty: "imageGlob p \<Longrightarrow> p \<noteq> []"
  by (auto simp: imageGlob_def basename_def ends_with_def)

lemma matched_image_ext:
  assumes "matched f"
  shows "image_ext (path f)"
proof -
  from assms have g: "imageGlob (filter_path f)" by (simp add: matched_def)
  then have "filter_path f \<noteq> []" by (rule imageGlob_nonempty)
  then have "basename (filter_path f) = basename (path f)" by (rule basename_filter_path)
  then have "image_ext (filter_path f) = image_ext (path f)" by (rule image_ext_basename)
  with g show ?thesis using imageGlob_image_ext by blast
qed

lemma pngquant_all_paths:
  "pngquant_all q xs = Inr ys \<Longrightarrow> map path ys = map path xs"
  by (induction xs arbitrary: ys) (auto split: sum.splits option.splits)


lemma processPipe_Inr:
  assumes "processPipe t (Inr files) = Inr out"
  obtains processed where
    "pngquant_all (pngquant t) (filter matched files) = Inr processed"
    "out = processed @ filter (\<lambda>f. \<not> matched f) files"
  using assms by (auto simp: processPipe_def split: sum.splits)

lemma processed_are_images:
  assumes "pngquant_all q (filter matched files) = Inr processed"
    and "g \<in> set processed"
  shows "image_ext (path g)"
proof -
  from assms(1) have "map path processed = map path (filter matched files)"
    by (rule pngquant_all_paths)
  moreover from assms(2) have "path g \<in> set (map path processed)" by simp
  ultimately obtain f where "matched f" and "path g = path f" by auto
  then show ?thesis using matched_image_ext by simp
qed

text \<open>
  C8. Whenever \<^verbatim>\<open>processPipe\<close> delivers, the files whose extension is not \<^verbatim>\<open>.bmp\<close>, \<^verbatim>\<open>.png\<close> or
  \<^verbatim>\<open>.jpg\<close> come out as they went in, with the same paths and the same bytes, each as many
  times as it went in, and every file that comes out changed has one of the three
  extensions. When no file of the input has one of these extensions, \<^verbatim>\<open>processPipe\<close>
  delivers, without running the recompression, exactly the files of the input.
\<close>

theorem processPipe_recompresses_only_images:
  "(\<forall>out. processPipe t (Inr files) = Inr out \<longrightarrow>
      filter_mset (\<lambda>f. \<not> image_ext (path f)) (mset out)
        = filter_mset (\<lambda>f. \<not> image_ext (path f)) (mset files)
      \<and> (\<forall>g\<in>set out. g \<notin> set files \<longrightarrow> image_ext (path g)))
   \<and> ((\<forall>f\<in>set files. \<not> image_ext (path f)) \<longrightarrow>
        (\<exists>out. processPipe t (Inr files) = Inr out \<and> mset out = mset files))"
proof (intro conjI allI impI)
  fix out
  assume r: "processPipe t (Inr files) = Inr out"
  then obtain processed where
    p: "pngquant_all (pngquant t) (filter matched files) = Inr processed"
    and out: "out = processed @ filter (\<lambda>f. \<not> matched f) files"
    by (rule processPipe_Inr)
  have img: "image_ext (path g)" if "g \<in> set processed" for g
    using p that by (rule processed_are_images)
  have "filter (\<lambda>f. \<not> image_ext (path f)) processed = []"
    using img by (auto simp: filter_empty_conv)
  moreover have "filter (\<lambda>f. \<not> image_ext (path f)) (filter (\<lambda>f. \<not> matched f) files)
      = filter (\<lambda>f. \<not> image_ext (path f)) files"
    using matched_image_ext by (auto intro: filter_cong)
  ultimately have "filter (\<lambda>f. \<not> image_ext (path f)) out
      = filter (\<lambda>f. \<not> image_ext (path f)) files"
    by (simp add: out)
  then have "mset (filter (\<lambda>f. \<not> image_ext (path f)) out)
      = mset (filter (\<lambda>f. \<not> image_ext (path f)) files)"
    by simp
  then show "filter_mset (\<lambda>f. \<not> image_ext (path f)) (mset out)
        = filter_mset (\<lambda>f. \<not> image_ext (path f)) (mset files)"
    by simp
  show "\<forall>g\<in>set out. g \<notin> set files \<longrightarrow> image_ext (path g)"
    using img by (auto simp: out)
next
  assume none: "\<forall>f\<in>set files. \<not> image_ext (path f)"
  then have "\<forall>f\<in>set files. \<not> matched f"
    using matched_image_ext by blast
  then have "filter matched files = []"
    and "filter (\<lambda>f. \<not> matched f) files = files"
    by (simp_all add: filter_empty_conv filter_id_conv)
  then have "processPipe t (Inr files) = Inr files"
    by (simp add: processPipe_def)
  then show "\<exists>out. processPipe t (Inr files) = Inr out \<and> mset out = mset files"
    by simp
qed

lemma example_exts:
  "\<not> image_ext (path eboot_bin)" "\<not> image_ext (path index_lua)"
  "\<not> image_ext (path img_dir)" "image_ext (path logo_png)"
  by (simp_all add: image_ext_def extname_def basename_def eboot_bin_def index_lua_def
      img_dir_def logo_png_def Let_def)

lemma example_filter_paths:
  "filter_path eboot_bin = ''src/eboot.bin''" "filter_path index_lua = ''src/index.lua''"
  "filter_path img_dir = ''src/img''" "filter_path logo_png = ''src/img/logo.png''"
  by (simp_all add: filter_path_def cwd_prefix_def ends_with_def eboot_bin_def index_lua_def
      img_dir_def logo_png_def)

lemma example_globs:
  "\<not> matched eboot_bin" "\<not> matched index_lua" "\<not> matched img_dir" "matched logo_png"
  by (simp_all add: matched_def example_filter_paths imageGlob_def basename_def ends_with_def
      hidden_def)

lemma example_processPipe:
  "processPipe (example_tools []) (Inr [eboot_bin, logo_png, index_lua])
     = Inr [logo_png\<lparr>contents := Some ''quantized PNG''\<rparr>, eboot_bin, index_lua]"
proof -
  have "contents logo_png = Some ''PNG''" by (simp add: logo_png_def)
  then show ?thesis by (simp add: processPipe_def example_globs example_tools_def)
qed

theorem processPipe_recompresses_only_images_witness:
  "(\<exists>out. processPipe (example_tools []) (Inr [eboot_bin, index_lua]) = Inr out
       \<and> mset out = mset [eboot_bin, index_lua])
   \<and> filter_mset (\<lambda>f. \<not> image_ext (path f))
        (mset [logo_png\<lparr>contents := Some ''quantized PNG''\<rparr>, eboot_bin, index_lua])
      = filter_mset (\<lambda>f. \<not> image_ext (path f)) (mset [eboot_bin, logo_png, index_lua])"
proof -
  have none: "\<forall>f\<in>set [eboot_bin, index_lua]. \<not> image_ext (path f)"
    by (simp add: example_exts)
  from processPipe_recompresses_only_images [of "example_tools []" "[eboot_bin, index_lua]"] none
  have 1: "\<exists>out. processPipe (example_tools []) (Inr [eboot_bin, index_lua]) = Inr out
       \<and> mset out = mset [eboot_bin, index_lua]"
    by blast
  from processPipe_recompresses_only_images
         [of "example_tools []" "[eboot_bin, logo_png, index_lua]"] example_processPipe
  have 2: "filter_mset (\<lambda>f. \<not> image_ext (path f))
        (mset [logo_png\<lparr>contents := Some ''quantized PNG''\<rparr>, eboot_bin, index_lua])
      = filter_mset (\<lambda>f. \<not> image_ext (path f)) (mset [eboot_bin, logo_png, index_lua])"
    by blast
  from 1 2 show ?thesis by blast
qed

section \<open>Properties of the build\<close>














section \<open>Properties of the deployment\<close>

text \<open>How an awaited function runs through an \<^verbatim>\<open>await\<close> and through the call of another.\<close>

lemma run_await:
  "run (await op rest) w tr =
     (case respond w op of
        (Inl e, w') \<Rightarrow> (tr @ [Started op, Finished op (Inl e)], Inl e, w')
      | (Inr u, w') \<Rightarrow> run rest w' (tr @ [Started op, Finished op (Inr u)]))"
  by (simp add: await_def split: prod.splits sum.splits)

lemma run_andThen:
  "run (andThen p q) w tr =
     (case run p w tr of
        (tr', Inl e, w') \<Rightarrow> (tr', Inl e, w')
      | (tr', Inr u, w') \<Rightarrow> run q w' tr')"
  by (induction p arbitrary: w tr) (auto split: prod.splits sum.splits)

text \<open>
  Awaiting a function is calling it and resuming it when its first operation settles:
  the two readings of a body agree.
\<close>

lemma run_call_resume:
  "run p w tr = (case call p tr of (tr', f) \<Rightarrow> resume f w tr')"
  by (induction p arbitrary: tr) (auto simp: resume_def split: prod.splits)

lemma run_sendCmdAsync_no_ip:
  assumes "nullish (get (h (configuration this)) ''ip'')"
  shows "run (sendCmdAsync h this cmd) w tr = (tr, Inl ipIsNotDefined, w)"
  using assms by (simp add: sendCmdAsync_def generateNetcatClient_def)

lemma run_deploy_no_ip:
  assumes "nullish (get (h (configuration this)) ''ip'')"
  shows "run (deployPipeAsync h this pipe) w [] =
     (case respond w (Stage pipe tempDir) of
        (Inl e, w') \<Rightarrow>
          ([Logged ''Bundling project files to temp directory.'',
            Started (Stage pipe tempDir), Finished (Stage pipe tempDir) (Inl e)], Inl e, w')
      | (Inr u, w') \<Rightarrow>
          ([Logged ''Bundling project files to temp directory.'',
            Started (Stage pipe tempDir), Finished (Stage pipe tempDir) (Inr u),
            Logged ''Files bundled.'', Logged ''Closing applications just in case.''],
           Inl ipIsNotDefined, w'))"
  using assms
  by (simp add: deployPipeAsync_def run_await run_andThen run_sendCmdAsync_no_ip
      split: prod.splits sum.splits)

text \<open>
  C3. The configuration has no device address (\<^verbatim>\<open>ip\<close> is \<^verbatim>\<open>null\<close> or absent). Then the
  promise of \<^verbatim>\<open>sendCmdAsync\<close> is rejected with \<^verbatim>\<open>errors.ipIsNotDefined\<close>, already when the
  function is called, and nothing has been started: no connection is opened. The
  deployment, whatever the disk and the device do, starts no operation that goes over
  the network (in particular it never connects the file-transfer session) and fails;
  when the staging has succeeded it fails with \<^verbatim>\<open>errors.ipIsNotDefined\<close>, at the command
  that stops the application.
\<close>

theorem no_address_no_network:
  assumes "nullish (get (h (configuration this)) ''ip'')"
  shows "run (sendCmdAsync h this cmd) w tr = (tr, Inl ipIsNotDefined, w)
         \<and> call (sendCmdAsync h this cmd) tr = (tr, Settled (Inl ipIsNotDefined))
         \<and> (\<forall>op. Started op \<in> set (fst (run (deployPipeAsync h this pipe) w []))
               \<longrightarrow> \<not> network op)
         \<and> (\<exists>e. fst (snd (run (deployPipeAsync h this pipe) w [])) = Inl e)
         \<and> (fst (respond w (Stage pipe tempDir)) = Inr ()
               \<longrightarrow> fst (snd (run (deployPipeAsync h this pipe) w [])) = Inl ipIsNotDefined)"
proof (intro conjI)
  note d = run_deploy_no_ip [of h this pipe w, OF assms]
  show "run (sendCmdAsync h this cmd) w tr = (tr, Inl ipIsNotDefined, w)"
    using assms by (rule run_sendCmdAsync_no_ip)
  show "call (sendCmdAsync h this cmd) tr = (tr, Settled (Inl ipIsNotDefined))"
    using assms by (simp add: sendCmdAsync_def generateNetcatClient_def)
  show "\<forall>op. Started op \<in> set (fst (run (deployPipeAsync h this pipe) w []))
               \<longrightarrow> \<not> network op"
    by (auto simp: d split: prod.splits sum.splits)
  show "\<exists>e. fst (snd (run (deployPipeAsync h this pipe) w [])) = Inl e"
    by (auto simp: d split: prod.splits sum.splits)
  show "fst (respond w (Stage pipe tempDir)) = Inr ()
               \<longrightarrow> fst (snd (run (deployPipeAsync h this pipe) w [])) = Inl ipIsNotDefined"
    by (auto simp: d split: prod.splits sum.splits)
qed

theorem no_address_no_network_witness:
  "run (sendCmdAsync example_heap example_project ''destroy'') (example_world []) []
     = ([], Inl ipIsNotDefined, example_world [])
   \<and> fst (snd (run (deployPipeAsync example_heap example_project (Inr [eboot_bin]))
                  (example_world []) [])) = Inl ipIsNotDefined"
proof -
  have ip: "nullish (get (example_heap (configuration example_project)) ''ip'')"
    by (simp add: example_heap_def store_of_def get_literal example_project_def nullish_def)
  have staged: "fst (respond (example_world []) (Stage (Inr [eboot_bin]) tempDir)) = Inr ()"
    by (simp add: respond_def example_world_def)
  from no_address_no_network
         [where h = example_heap and this = example_project and cmd = "''destroy''"
            and w = "example_world []" and tr = "[]" and pipe = "Inr [eboot_bin]"]
       ip staged
  show ?thesis by blast
qed

text \<open>
  \<^verbatim>\<open>deployAsync\<close> is fulfilled as soon as \<^verbatim>\<open>deployPipeAsync\<close> has started the staging: of
  the whole sequence, only the first log line and the start of the first operation have
  happened, and \<^verbatim>\<open>deployPipeAsync\<close> is left suspended on that operation.
\<close>

lemma deployAsync_resolves_first:
  "\<exists>k. deployAsync t h this [] =
     ([Logged ''Bundling project files to temp directory.'',
       Started (Stage (processedSrcFiles t h this) tempDir),
       Resolved ''deployAsync''],
      Suspended (Stage (processedSrcFiles t h this) tempDir) k)"
  by (simp add: deployAsync_def deployPipeAsync_def await_def)

text \<open>The steps of \<^verbatim>\<open>deployPipeAsync\<close>, one operation at a time.\<close>

lemma cds_append: "cds (xs @ ys) = cds xs @ cds ys"
  by (induction xs rule: cds.induct) simp_all

lemma respond_frame:
  "respond w op = (r, w') \<Longrightarrow> faults w' = faults w \<and> remote_dirs w' = remote_dirs w"
  by (auto simp: respond_def split: option.splits io.splits sum.splits jsval.splits if_splits)

lemma respond_access:
  "respond w (FtpAccess a p) = (Inr u, w') \<Longrightarrow> remote_cwd w' = []"
  by (auto simp: respond_def split: option.splits)

lemma respond_cd:
  assumes "respond w (FtpCd (Some (JStr s))) = (r, w')"
  shows "(r = Inr () \<and> remote_cwd w @ [s] \<in> set (remote_dirs w)
            \<and> remote_cwd w' = remote_cwd w @ [s])
         \<or> (\<exists>e. r = Inl e \<and>
               (faults w (FtpCd (Some (JStr s))) = None \<longrightarrow> e = RemoteDirNotFound))"
  using assms by (auto simp: respond_def split: option.splits if_splits)

lemma run_await_cases [consumes 1, case_names rejected fulfilled]:
  assumes "run (await op rest) w tr = (tr', r, w')"
  obtains (rejected) e where "respond w op = (Inl e, w')"
      "tr' = tr @ [Started op, Finished op (Inl e)]" "r = Inl e"
    | (fulfilled) w1 where "respond w op = (Inr (), w1)"
      "run rest w1 (tr @ [Started op, Finished op (Inr ())]) = (tr', r, w')"
proof -
  obtain r1 w1 where resp: "respond w op = (r1, w1)" by (cases "respond w op")
  show thesis
  proof (cases r1)
    case (Inl e)
    with assms resp have "tr' = tr @ [Started op, Finished op (Inl e)]" "r = Inl e" "w1 = w'"
      by (auto simp: run_await)
    with resp Inl show thesis by (intro rejected [of e]) simp_all
  next
    case (Inr u)
    with assms resp
    have "run rest w1 (tr @ [Started op, Finished op (Inr ())]) = (tr', r, w')"
      by (simp add: run_await)
    with resp Inr show thesis by (intro fulfilled [of w1]) simp_all
  qed
qed

lemma run_cd_cases [consumes 1, case_names refused entered]:
  assumes "run (await (FtpCd (Some (JStr s))) rest) w tr = (tr', r, w')"
  obtains (refused) e where
      "tr' = tr @ [Started (FtpCd (Some (JStr s))), Finished (FtpCd (Some (JStr s))) (Inl e)]"
      "r = Inl e" "faults w (FtpCd (Some (JStr s))) = None \<longrightarrow> e = RemoteDirNotFound"
    | (entered) w1 where "remote_cwd w @ [s] \<in> set (remote_dirs w)"
      "remote_cwd w1 = remote_cwd w @ [s]" "remote_dirs w1 = remote_dirs w"
      "faults w1 = faults w"
      "run rest w1 (tr @ [Started (FtpCd (Some (JStr s))),
                          Finished (FtpCd (Some (JStr s))) (Inr ())]) = (tr', r, w')"
  using assms
proof (cases rule: run_await_cases)
  case (rejected e)
  with respond_cd [OF rejected(1)] show ?thesis by (auto intro: refused)
next
  case (fulfilled w1)
  with respond_cd [OF fulfilled(1)] respond_frame [OF fulfilled(1)] show ?thesis
    by (auto intro: entered)
qed

lemma andThen_sendCmdAsync:
  "andThen (sendCmdAsync h this c) q =
     (if nullish (get (h (configuration this)) ''ip'') then Throw ipIsNotDefined
      else await (NcSend (get (h (configuration this)) ''ip'')
                   (coalesce
                      (coalesce (opt_chain (get (h (configuration this)) ''ports'') ''cmd'')
                                (opt_chain (get (h defaults_config_addr) ''ports'') ''cmd''))
                      (Some (JNum ''1338'')))
                   (c @ [CHR 0x0A])) q)"
  by (auto simp: sendCmdAsync_def generateNetcatClient_def await_def fun_eq_iff
      split: sum.splits)


lemma pre_phase [consumes 1, case_names stopped connected]:
  assumes "run (Log s0 (await (Stage pipe d) (Log s1 (Log s2
             (andThen (sendCmdAsync h this c)
                (Log s3 (await (FtpAccess a p) (Log s4 (Log s5 nav))))))))) w []
           = (tr, r, w')"
  obtains (stopped) e where "cds tr = []" "\<forall>x. Started (FtpUploadFromDir x) \<notin> set tr"
      "r = Inl e"
    | (connected) w3 tr3 where "remote_cwd w3 = []" "remote_dirs w3 = remote_dirs w"
      "faults w3 = faults w" "cds tr3 = []" "\<forall>x. Started (FtpUploadFromDir x) \<notin> set tr3"
      "run nav w3 tr3 = (tr, r, w')"
proof -
  from assms have "run (await (Stage pipe d) (Log s1 (Log s2
             (andThen (sendCmdAsync h this c)
                (Log s3 (await (FtpAccess a p) (Log s4 (Log s5 nav)))))))) w [Logged s0]
           = (tr, r, w')"
    by simp
  then show thesis
  proof (cases rule: run_await_cases)
    case (rejected e)
    then show ?thesis by (intro stopped [of e]) simp_all
  next
    case staged: (fulfilled w1)
    note f1 = respond_frame [OF staged(1)]
    show ?thesis
    proof (cases "nullish (get (h (configuration this)) ''ip'')")
      case True
      with staged(2) show ?thesis
        by (intro stopped [of ipIsNotDefined]) (auto simp: andThen_sendCmdAsync)
    next
      case False
      let ?send = "NcSend (get (h (configuration this)) ''ip'')
                   (coalesce
                      (coalesce (opt_chain (get (h (configuration this)) ''ports'') ''cmd'')
                                (opt_chain (get (h defaults_config_addr) ''ports'') ''cmd''))
                      (Some (JNum ''1338'')))
                   (c @ [CHR 0x0A])"
      from False staged(2)
      have "run (await ?send (Log s3 (await (FtpAccess a p) (Log s4 (Log s5 nav))))) w1
              [Logged s0, Started (Stage pipe d), Finished (Stage pipe d) (Inr ()),
               Logged s1, Logged s2] = (tr, r, w')"
        by (simp add: andThen_sendCmdAsync)
      then show ?thesis
      proof (cases rule: run_await_cases)
        case (rejected e)
        then show ?thesis by (intro stopped [of e]) simp_all
      next
        case sent: (fulfilled w2)
        note f2 = respond_frame [OF sent(1)]
        from sent(2) have "run (await (FtpAccess a p) (Log s4 (Log s5 nav))) w2
              [Logged s0, Started (Stage pipe d), Finished (Stage pipe d) (Inr ()),
               Logged s1, Logged s2, Started ?send, Finished ?send (Inr ()), Logged s3]
              = (tr, r, w')"
          by simp
        then show ?thesis
        proof (cases rule: run_await_cases)
          case (rejected e)
          then show ?thesis by (intro stopped [of e]) simp_all
        next
          case accessed: (fulfilled w3)
          note f3 = respond_frame [OF accessed(1)] respond_access [OF accessed(1)]
          from accessed(2) show ?thesis
            by (intro connected [of w3]) (auto simp: f1 f2 f3)
        qed
      qed
    qed
  qed
qed

lemma nav_phase [consumes 2, case_names refused entered]:
  assumes run: "run (await (FtpCd (Some (JStr a))) (Log l1
                (await (FtpCd (Some (JStr b))) (Log l2
                  (await (FtpCd (Some (JStr c))) rest))))) w tr = (tr', r, w')"
    and cwd: "remote_cwd w = []"
  obtains (refused) e where
      "prefix (cds tr') (cds tr @ [Some (JStr a), Some (JStr b), Some (JStr c)])"
      "cds tr' \<noteq> cds tr"
      "\<forall>x. Started (FtpUploadFromDir x) \<in> set tr' \<longrightarrow> Started (FtpUploadFromDir x) \<in> set tr"
      "r = Inl e" "(\<forall>p. faults w (FtpCd p) = None) \<longrightarrow> e = RemoteDirNotFound"
    | (entered) w3 tr3 where "[a] \<in> set (remote_dirs w)" "[a, b] \<in> set (remote_dirs w)"
      "[a, b, c] \<in> set (remote_dirs w)"
      "cds tr3 = cds tr @ [Some (JStr a), Some (JStr b), Some (JStr c)]"
      "\<forall>x. Started (FtpUploadFromDir x) \<in> set tr3 \<longrightarrow> Started (FtpUploadFromDir x) \<in> set tr"
      "run rest w3 tr3 = (tr', r, w')"
  using run
proof (cases rule: run_cd_cases)
  case (refused e)
  then show ?thesis
    by (intro that(1) [of e]) (auto simp: cds_append)
next
  case first: (entered w1)
  from first(5) have "run (await (FtpCd (Some (JStr b))) (Log l2
                  (await (FtpCd (Some (JStr c))) rest))) w1
          (tr @ [Started (FtpCd (Some (JStr a))), Finished (FtpCd (Some (JStr a))) (Inr ()),
                 Logged l1]) = (tr', r, w')"
    by simp
  then show ?thesis
  proof (cases rule: run_cd_cases)
    case (refused e)
    with first show ?thesis
      by (intro that(1) [of e]) (auto simp: cds_append)
  next
    case second: (entered w2)
    from second(5) have "run (await (FtpCd (Some (JStr c))) rest) w2
          (tr @ [Started (FtpCd (Some (JStr a))), Finished (FtpCd (Some (JStr a))) (Inr ()),
                 Logged l1,
                 Started (FtpCd (Some (JStr b))), Finished (FtpCd (Some (JStr b))) (Inr ()),
                 Logged l2]) = (tr', r, w')"
      by simp
    then show ?thesis
    proof (cases rule: run_cd_cases)
      case (refused e)
      with first second show ?thesis
        by (intro that(1) [of e]) (auto simp: cds_append)
    next
      case third: (entered w3)
      from first(1-4) second(1-4) third(1-4) cwd
      have dirs: "[a] \<in> set (remote_dirs w)" "[a, b] \<in> set (remote_dirs w)"
        "[a, b, c] \<in> set (remote_dirs w)"
        by simp_all
      from third(5) show ?thesis
        by (intro that(2) [where ?w3.0 = w3, OF dirs]) (auto simp: cds_append)
    qed
  qed
qed

lemma post_phase:
  assumes "run (Log u0 (await (FtpUploadFromDir d) (Log u1 (Log u2 (FtpClose (Log u3 (Log u4
             (andThen (sendCmdAsync h this c)
                (Log u5 (Log u6 (andThen clearTempDirectoryAsync (Log u7 Return))))))))))))
             w tr = (tr', r, w')"
  shows "cds tr' = cds tr"
  using assms
  by (auto simp: run_await run_andThen andThen_sendCmdAsync clearTempDirectoryAsync_def
      cds_append split: prod.splits sum.splits if_splits)

text \<open>
  A run in which nothing fails but a change of directory: the changes that are started, and
  how the run ends.
\<close>

lemma nav_nofault:
  assumes ip: "\<not> nullish (get (h (configuration this)) ''ip'')"
    and id: "get (h (configuration this)) ''id'' = Some (JStr i)"
    and nf: "\<forall>op. faults w op = None"
  shows "cds (fst (run (deployPipeAsync h this (Inr files)) w [])) =
           (if [''ux0:''] \<notin> set (remote_dirs w) then [Some (JStr ''ux0:'')]
            else if [''ux0:'', ''app''] \<notin> set (remote_dirs w)
            then [Some (JStr ''ux0:''), Some (JStr ''app'')]
            else [Some (JStr ''ux0:''), Some (JStr ''app''), Some (JStr i)])"
    and "fst (snd (run (deployPipeAsync h this (Inr files)) w [])) =
           (if [''ux0:''] \<in> set (remote_dirs w) \<and> [''ux0:'', ''app''] \<in> set (remote_dirs w)
               \<and> [''ux0:'', ''app'', i] \<in> set (remote_dirs w)
            then Inr () else Inl RemoteDirNotFound)"
    and "Started (FtpUploadFromDir tempDir)
           \<in> set (fst (run (deployPipeAsync h this (Inr files)) w []))
         \<longleftrightarrow> [''ux0:''] \<in> set (remote_dirs w) \<and> [''ux0:'', ''app''] \<in> set (remote_dirs w)
               \<and> [''ux0:'', ''app'', i] \<in> set (remote_dirs w)"
proof -
  have cid: "coalesce (get (h (configuration this)) ''id'')
               (get (h defaults_config_addr) ''id'') = Some (JStr i)"
    by (simp add: id coalesce_def nullish_def)
  have r: "respond w' op =
             (case op of
                Stage s d \<Rightarrow> (case s of Inl e \<Rightarrow> (Inl e, w') | Inr _ \<Rightarrow> (Inr (), w'))
              | NcSend a p d \<Rightarrow> (Inr (), w')
              | FtpAccess a p \<Rightarrow> (Inr (), w'\<lparr>remote_cwd := []\<rparr>)
              | FtpCd p \<Rightarrow>
                  (case p of
                     Some (JStr seg) \<Rightarrow>
                       if remote_cwd w' @ [seg] \<in> set (remote_dirs w')
                       then (Inr (), w'\<lparr>remote_cwd := remote_cwd w' @ [seg]\<rparr>)
                       else (Inl RemoteDirNotFound, w')
                   | _ \<Rightarrow> (Inl TypeError, w'))
              | FtpUploadFromDir d \<Rightarrow> (Inr (), w')
              | Del d \<Rightarrow> (Inr (), w'))"
    if "faults w' = faults w" for w' op
    using that nf by (simp add: respond_def)
  show "cds (fst (run (deployPipeAsync h this (Inr files)) w [])) =
           (if [''ux0:''] \<notin> set (remote_dirs w) then [Some (JStr ''ux0:'')]
            else if [''ux0:'', ''app''] \<notin> set (remote_dirs w)
            then [Some (JStr ''ux0:''), Some (JStr ''app'')]
            else [Some (JStr ''ux0:''), Some (JStr ''app''), Some (JStr i)])"
    using ip
    by (simp add: deployPipeAsync_def cid andThen_sendCmdAsync clearTempDirectoryAsync_def run_andThen
        run_await r)
  show "fst (snd (run (deployPipeAsync h this (Inr files)) w [])) =
           (if [''ux0:''] \<in> set (remote_dirs w) \<and> [''ux0:'', ''app''] \<in> set (remote_dirs w)
               \<and> [''ux0:'', ''app'', i] \<in> set (remote_dirs w)
            then Inr () else Inl RemoteDirNotFound)"
    using ip
    by (simp add: deployPipeAsync_def cid andThen_sendCmdAsync clearTempDirectoryAsync_def run_andThen
        run_await r)
  show "Started (FtpUploadFromDir tempDir)
           \<in> set (fst (run (deployPipeAsync h this (Inr files)) w []))
         \<longleftrightarrow> [''ux0:''] \<in> set (remote_dirs w) \<and> [''ux0:'', ''app''] \<in> set (remote_dirs w)
               \<and> [''ux0:'', ''app'', i] \<in> set (remote_dirs w)"
    using ip
    by (simp add: deployPipeAsync_def cid andThen_sendCmdAsync clearTempDirectoryAsync_def run_andThen
        run_await r)
qed

text \<open>
  C4. The id is a string. In every run of \<^verbatim>\<open>deployPipeAsync\<close> the directory changes that
  are started are, in this order, \<^verbatim>\<open>ux0:\<close>, \<^verbatim>\<open>app\<close> and the id, or the first ones of these.
  When one of the directories \<^verbatim>\<open>ux0:\<close>, \<^verbatim>\<open>ux0:/app\<close>, \<^verbatim>\<open>ux0:/app/<id>\<close> does not exist on the
  device, the upload is never started and the deployment fails; if it got as far as
  the first change of directory, and no failure of the network hits a change of
  directory, it fails with \<^verbatim>\<open>RemoteDirNotFound\<close>. When the device address is set, the
  files are delivered and neither the disk nor the network fails, the run does get there:
  the directory changes started are exactly \<^verbatim>\<open>ux0:\<close>, then \<^verbatim>\<open>app\<close> if \<^verbatim>\<open>ux0:\<close> exists, then the
  id if \<^verbatim>\<open>ux0:/app\<close> exists too; with a directory missing the run fails with
  \<^verbatim>\<open>RemoteDirNotFound\<close>, and with all three there the upload is started and the run succeeds.
\<close>

theorem deploy_navigates_by_segment:
  assumes id: "get (h (configuration this)) ''id'' = Some (JStr i)"
  shows "prefix (cds (fst (run (deployPipeAsync h this pipe) w [])))
           [Some (JStr ''ux0:''), Some (JStr ''app''), Some (JStr i)]
         \<and> ([''ux0:''] \<notin> set (remote_dirs w) \<or> [''ux0:'', ''app''] \<notin> set (remote_dirs w)
              \<or> [''ux0:'', ''app'', i] \<notin> set (remote_dirs w) \<longrightarrow>
              (\<forall>d. Started (FtpUploadFromDir d)
                     \<notin> set (fst (run (deployPipeAsync h this pipe) w [])))
              \<and> (\<exists>e. fst (snd (run (deployPipeAsync h this pipe) w [])) = Inl e)
              \<and> (cds (fst (run (deployPipeAsync h this pipe) w [])) \<noteq> []
                   \<and> (\<forall>p. faults w (FtpCd p) = None) \<longrightarrow>
                  fst (snd (run (deployPipeAsync h this pipe) w [])) = Inl RemoteDirNotFound))
         \<and> (\<not> nullish (get (h (configuration this)) ''ip'') \<and> (\<exists>files. pipe = Inr files)
              \<and> (\<forall>op. faults w op = None) \<longrightarrow>
              cds (fst (run (deployPipeAsync h this pipe) w [])) =
                (if [''ux0:''] \<notin> set (remote_dirs w) then [Some (JStr ''ux0:'')]
                 else if [''ux0:'', ''app''] \<notin> set (remote_dirs w)
                 then [Some (JStr ''ux0:''), Some (JStr ''app'')]
                 else [Some (JStr ''ux0:''), Some (JStr ''app''), Some (JStr i)])
              \<and> fst (snd (run (deployPipeAsync h this pipe) w [])) =
                  (if [''ux0:''] \<in> set (remote_dirs w) \<and> [''ux0:'', ''app''] \<in> set (remote_dirs w)
                      \<and> [''ux0:'', ''app'', i] \<in> set (remote_dirs w)
                   then Inr () else Inl RemoteDirNotFound)
              \<and> (Started (FtpUploadFromDir tempDir)
                    \<in> set (fst (run (deployPipeAsync h this pipe) w []))
                  \<longleftrightarrow> [''ux0:''] \<in> set (remote_dirs w)
                        \<and> [''ux0:'', ''app''] \<in> set (remote_dirs w)
                        \<and> [''ux0:'', ''app'', i] \<in> set (remote_dirs w)))"
proof (intro conjI)
  obtain tr r w' where R: "run (deployPipeAsync h this pipe) w [] = (tr, r, w')"
    by (cases "run (deployPipeAsync h this pipe) w []")
  have cid: "coalesce (get (h (configuration this)) ''id'')
               (get (h defaults_config_addr) ''id'') = Some (JStr i)"
    by (simp add: id coalesce_def nullish_def)
  let ?missing = "[''ux0:''] \<notin> set (remote_dirs w) \<or> [''ux0:'', ''app''] \<notin> set (remote_dirs w)
              \<or> [''ux0:'', ''app'', i] \<notin> set (remote_dirs w)"
  have general: "prefix (cds tr) [Some (JStr ''ux0:''), Some (JStr ''app''), Some (JStr i)]
        \<and> (?missing \<longrightarrow>
              (\<forall>d. Started (FtpUploadFromDir d) \<notin> set tr) \<and> (\<exists>e. r = Inl e)
              \<and> (cds tr \<noteq> [] \<and> (\<forall>p. faults w (FtpCd p) = None) \<longrightarrow>
                    r = Inl RemoteDirNotFound))"
    using R [unfolded deployPipeAsync_def cid]
  proof (cases rule: pre_phase)
    case (stopped e)
    then show ?thesis by simp
  next
    case (connected w3 tr3)
    from connected(6) connected(1) show ?thesis
    proof (cases rule: nav_phase)
      case (refused e)
      with connected(3-5) show ?thesis by auto
    next
      case (entered w4 tr4)
      from post_phase [OF entered(6)] entered(4) connected(4)
      have "cds tr = [Some (JStr ''ux0:''), Some (JStr ''app''), Some (JStr i)]"
        by simp
      with entered(1-3) connected(2) show ?thesis by simp
    qed
  qed
  from general
  show "prefix (cds (fst (run (deployPipeAsync h this pipe) w [])))
           [Some (JStr ''ux0:''), Some (JStr ''app''), Some (JStr i)]"
    by (simp add: R)
  from general
  show "[''ux0:''] \<notin> set (remote_dirs w) \<or> [''ux0:'', ''app''] \<notin> set (remote_dirs w)
              \<or> [''ux0:'', ''app'', i] \<notin> set (remote_dirs w) \<longrightarrow>
              (\<forall>d. Started (FtpUploadFromDir d)
                     \<notin> set (fst (run (deployPipeAsync h this pipe) w [])))
              \<and> (\<exists>e. fst (snd (run (deployPipeAsync h this pipe) w [])) = Inl e)
              \<and> (cds (fst (run (deployPipeAsync h this pipe) w [])) \<noteq> []
                   \<and> (\<forall>p. faults w (FtpCd p) = None) \<longrightarrow>
                  fst (snd (run (deployPipeAsync h this pipe) w [])) = Inl RemoteDirNotFound)"
    by (simp add: R)
  show "\<not> nullish (get (h (configuration this)) ''ip'') \<and> (\<exists>files. pipe = Inr files)
              \<and> (\<forall>op. faults w op = None) \<longrightarrow>
              cds (fst (run (deployPipeAsync h this pipe) w [])) =
                (if [''ux0:''] \<notin> set (remote_dirs w) then [Some (JStr ''ux0:'')]
                 else if [''ux0:'', ''app''] \<notin> set (remote_dirs w)
                 then [Some (JStr ''ux0:''), Some (JStr ''app'')]
                 else [Some (JStr ''ux0:''), Some (JStr ''app''), Some (JStr i)])
              \<and> fst (snd (run (deployPipeAsync h this pipe) w [])) =
                  (if [''ux0:''] \<in> set (remote_dirs w) \<and> [''ux0:'', ''app''] \<in> set (remote_dirs w)
                      \<and> [''ux0:'', ''app'', i] \<in> set (remote_dirs w)
                   then Inr () else Inl RemoteDirNotFound)
              \<and> (Started (FtpUploadFromDir tempDir)
                    \<in> set (fst (run (deployPipeAsync h this pipe) w []))
                  \<longleftrightarrow> [''ux0:''] \<in> set (remote_dirs w)
                        \<and> [''ux0:'', ''app''] \<in> set (remote_dirs w)
                        \<and> [''ux0:'', ''app'', i] \<in> set (remote_dirs w))"
  proof (intro impI, elim conjE exE)
    fix files
    assume ip: "\<not> nullish (get (h (configuration this)) ''ip'')"
      and pipe: "pipe = Inr files" and nf: "\<forall>op. faults w op = None"
    note n = nav_nofault [of h this i w files, OF ip id nf]
    show "cds (fst (run (deployPipeAsync h this pipe) w [])) =
                (if [''ux0:''] \<notin> set (remote_dirs w) then [Some (JStr ''ux0:'')]
                 else if [''ux0:'', ''app''] \<notin> set (remote_dirs w)
                 then [Some (JStr ''ux0:''), Some (JStr ''app'')]
                 else [Some (JStr ''ux0:''), Some (JStr ''app''), Some (JStr i)])
              \<and> fst (snd (run (deployPipeAsync h this pipe) w [])) =
                  (if [''ux0:''] \<in> set (remote_dirs w) \<and> [''ux0:'', ''app''] \<in> set (remote_dirs w)
                      \<and> [''ux0:'', ''app'', i] \<in> set (remote_dirs w)
                   then Inr () else Inl RemoteDirNotFound)
              \<and> (Started (FtpUploadFromDir tempDir)
                    \<in> set (fst (run (deployPipeAsync h this pipe) w []))
                  \<longleftrightarrow> [''ux0:''] \<in> set (remote_dirs w)
                        \<and> [''ux0:'', ''app''] \<in> set (remote_dirs w)
                        \<and> [''ux0:'', ''app'', i] \<in> set (remote_dirs w))"
      unfolding pipe using n by blast
  qed
qed

text \<open>
  The example project on a device where \<^verbatim>\<open>ux0:/app/TESTGAME1\<close> does not exist, and on one
  where it does.
\<close>

theorem deploy_navigates_by_segment_witness:
  "cds (fst (run (deployPipeAsync device_heap example_project (Inr [eboot_bin]))
               (example_world [[''ux0:''], [''ux0:'', ''app'']]) []))
     = [Some (JStr ''ux0:''), Some (JStr ''app''), Some (JStr ''TESTGAME1'')]
   \<and> fst (snd (run (deployPipeAsync device_heap example_project (Inr [eboot_bin]))
               (example_world [[''ux0:''], [''ux0:'', ''app'']]) [])) = Inl RemoteDirNotFound
   \<and> Started (FtpUploadFromDir tempDir)
        \<notin> set (fst (run (deployPipeAsync device_heap example_project (Inr [eboot_bin]))
                       (example_world [[''ux0:''], [''ux0:'', ''app'']]) []))
   \<and> cds (fst (run (deployPipeAsync device_heap example_project (Inr [eboot_bin]))
               (example_world [[''ux0:''], [''ux0:'', ''app''], [''ux0:'', ''app'', ''TESTGAME1'']])
               []))
     = [Some (JStr ''ux0:''), Some (JStr ''app''), Some (JStr ''TESTGAME1'')]
   \<and> Started (FtpUploadFromDir tempDir)
        \<in> set (fst (run (deployPipeAsync device_heap example_project (Inr [eboot_bin]))
                  (example_world [[''ux0:''], [''ux0:'', ''app''], [''ux0:'', ''app'', ''TESTGAME1'']])
                  []))"
proof -
  have id: "get (device_heap (configuration example_project)) ''id'' = Some (JStr ''TESTGAME1'')"
    by (simp add: device_heap_def store_of_def get_literal example_project_def)
  have ip: "\<not> nullish (get (device_heap (configuration example_project)) ''ip'')"
    by (simp add: device_heap_def store_of_def get_literal example_project_def nullish_def)
  have pipe: "\<exists>files. (Inr [eboot_bin] :: stream) = Inr files" by simp
  have nofault: "\<forall>op. faults (example_world dirs) op = None" for dirs
    by (simp add: example_world_def)
  have dirs: "remote_dirs (example_world ds) = ds" for ds
    by (simp add: example_world_def)
  from deploy_navigates_by_segment
         [where h = device_heap and this = example_project and i = "''TESTGAME1''"
            and pipe = "Inr [eboot_bin]"
            and w = "example_world [[''ux0:''], [''ux0:'', ''app'']]", OF id]
       ip pipe nofault
  have 1: "cds (fst (run (deployPipeAsync device_heap example_project (Inr [eboot_bin]))
               (example_world [[''ux0:''], [''ux0:'', ''app'']]) []))
     = [Some (JStr ''ux0:''), Some (JStr ''app''), Some (JStr ''TESTGAME1'')]
   \<and> fst (snd (run (deployPipeAsync device_heap example_project (Inr [eboot_bin]))
               (example_world [[''ux0:''], [''ux0:'', ''app'']]) [])) = Inl RemoteDirNotFound
   \<and> Started (FtpUploadFromDir tempDir)
        \<notin> set (fst (run (deployPipeAsync device_heap example_project (Inr [eboot_bin]))
                       (example_world [[''ux0:''], [''ux0:'', ''app'']]) []))"
    by (simp add: dirs)
  from deploy_navigates_by_segment
         [where h = device_heap and this = example_project and i = "''TESTGAME1''"
            and pipe = "Inr [eboot_bin]"
            and w = "example_world [[''ux0:''], [''ux0:'', ''app''],
                       [''ux0:'', ''app'', ''TESTGAME1'']]", OF id]
       ip pipe nofault
  have 2: "cds (fst (run (deployPipeAsync device_heap example_project (Inr [eboot_bin]))
               (example_world [[''ux0:''], [''ux0:'', ''app''], [''ux0:'', ''app'', ''TESTGAME1'']])
               []))
     = [Some (JStr ''ux0:''), Some (JStr ''app''), Some (JStr ''TESTGAME1'')]
   \<and> Started (FtpUploadFromDir tempDir)
        \<in> set (fst (run (deployPipeAsync device_heap example_project (Inr [eboot_bin]))
                  (example_world [[''ux0:''], [''ux0:'', ''app''], [''ux0:'', ''app'', ''TESTGAME1'']])
                  []))"
    by (simp add: dirs)
  from 1 2 show ?thesis by simp
qed

text \<open>The constructor on the project with a device address, and its processed sources.\<close>

lemma device_loaded:
  "new_VitaProject device_fs device_parse None module_heap = (Inr example_project, device_heap)"
proof -
  have "assign_props defaults_config device_descriptor = device_heap defaults_config_addr"
    by (simp add: assign_props_def set_prop_def defaults_config_def device_descriptor_def
        device_heap_def store_of_def literal_def)
  then have h: "module_heap(defaults_config_addr :=
                  assign_props (module_heap defaults_config_addr) device_descriptor)
                = device_heap"
    by (auto simp: module_heap_def device_heap_def store_of_def)
  have r: "readConfiguration device_fs device_parse projectConfigurationFilePath module_heap
           = (Inr defaults_config_addr, device_heap)"
    by (subst readConfiguration_loads [where json = device_text and parsed = device_descriptor])
       (simp_all add: device_fs_def device_parse_def h)
  have v: "validateConfiguration (device_heap defaults_config_addr) = Inr ()"
    by (simp add: validateConfiguration_def device_heap_def store_of_def get_literal
        nullish_def opt_chain_def show_nat_digit)
  have c: "snd (checkRequiredFiles device_fs device_heap
             \<lparr>configuration = defaults_config_addr\<rparr>) = Inr ()"
    by (simp add: checkRequiredFiles_def device_fs_def srcDirPath_def ebootPath_def
        indexPath_def device_heap_def store_of_def get_literal template_def
        ebootFileName_def indexFileName_def)
  show ?thesis
    by (simp add: new_VitaProject_def r v c example_project_def)
qed

lemma device_sources:
  "processedSrcFiles (example_tools [eboot_bin, index_lua]) device_heap example_project
     = Inr [eboot_bin, index_lua]"
proof -
  have "srcFiles (example_tools [eboot_bin, index_lua]) device_heap example_project
          = Inr [eboot_bin, index_lua]"
    by (simp add: srcFiles_def example_tools_def device_heap_def store_of_def get_literal
        example_project_def template_def)
  then show ?thesis
    by (simp add: processedSrcFiles_def processPipe_def example_globs)
qed

text \<open>
  C1, on the code. The task \<^verbatim>\<open>deploy\<close> on the example project with a device that has all
  three directories, nothing failing: the promise of \<^verbatim>\<open>deployAsync\<close> is fulfilled, and the
  task is done, when the staging has only been started. The staging finishes
  afterwards, and so do the stop command, the transfer session, the launch command and
  the cleanup, in this order.
\<close>

theorem deploy_task_done_before_staging:
  "task_deploy device_fs device_parse (example_tools [eboot_bin, index_lua]) module_heap
     (example_world [[''ux0:''], [''ux0:'', ''app''], [''ux0:'', ''app'', ''TESTGAME1'']]) =
   Inr ([Logged ''Bundling project files to temp directory.'',
         Started (Stage (Inr [eboot_bin, index_lua]) ''.temp''),
         Resolved ''deployAsync'',
         Resolved ''deploy'',
         Finished (Stage (Inr [eboot_bin, index_lua]) ''.temp'') (Inr ()),
         Logged ''Files bundled.'', Logged ''Closing applications just in case.'',
         Started (NcSend (Some (JStr ''192.168.1.20'')) (Some (JNum ''1338''))
                    (''destroy'' @ [CHR 0x0A])),
         Finished (NcSend (Some (JStr ''192.168.1.20'')) (Some (JNum ''1338''))
                    (''destroy'' @ [CHR 0x0A])) (Inr ()),
         Logged ''Connecting to FTP server...'',
         Started (FtpAccess (Some (JStr ''192.168.1.20'')) (Some (JNum ''1337''))),
         Finished (FtpAccess (Some (JStr ''192.168.1.20'')) (Some (JNum ''1337''))) (Inr ()),
         Logged ''Connected to FTP server.'', Logged ''Going to ux0: directory'',
         Started (FtpCd (Some (JStr ''ux0:''))),
         Finished (FtpCd (Some (JStr ''ux0:''))) (Inr ()),
         Logged ''Going to app directory'',
         Started (FtpCd (Some (JStr ''app''))),
         Finished (FtpCd (Some (JStr ''app''))) (Inr ()),
         Logged ''Going to TESTGAME1 directory'',
         Started (FtpCd (Some (JStr ''TESTGAME1''))),
         Finished (FtpCd (Some (JStr ''TESTGAME1''))) (Inr ()),
         Logged ''Uploading files...'',
         Started (FtpUploadFromDir ''.temp''),
         Finished (FtpUploadFromDir ''.temp'') (Inr ()),
         Logged ''Files uploaded.'', Logged ''Closing connection.'', FtpClosed,
         Logged ''Connection closed'', Logged ''Opening application again'',
         Started (NcSend (Some (JStr ''192.168.1.20'')) (Some (JNum ''1338''))
                    (''launch TESTGAME1'' @ [CHR 0x0A])),
         Finished (NcSend (Some (JStr ''192.168.1.20'')) (Some (JNum ''1338''))
                    (''launch TESTGAME1'' @ [CHR 0x0A])) (Inr ()),
         Logged ''Opened application.'', Logged ''Clearing temp directory'',
         Logged ''Clearing temp directory...'',
         Started (Del ''.temp''),
         Finished (Del ''.temp'') (Inr ()),
         Logged ''Temp directory cleared.'', Logged ''Cleared temp directory.''],
        Inr (),
        \<lparr>faults = (\<lambda>op. None),
         remote_dirs = [[''ux0:''], [''ux0:'', ''app''], [''ux0:'', ''app'', ''TESTGAME1'']],
         remote_cwd = [''ux0:'', ''app'', ''TESTGAME1'']\<rparr>)"
  apply (simp add: task_deploy_def device_loaded deployAsync_def device_sources)
  apply (simp add: resume_def
      deployPipeAsync_def await_def run_andThen sendCmdAsync_def clearTempDirectoryAsync_def
      generateNetcatClient_def respond_def example_world_def device_heap_def store_of_def
      get_literal example_project_def defaults_config_addr_def tempDir_def coalesce_def
      nullish_def opt_chain_def template_def)
  done

end
